theory Spec2Isabelle
  imports Main "HOL-Library.Sublist"
begin

section \<open>JavaScript values used by the playground machine\<close>

text \<open>
  The session controller of the playground is the xstate machine of
  \<^verbatim>\<open>src/playground/src/routes/Playground.machine.ts\<close>.  Its actions are
  JavaScript functions over a context object; what follows embeds them as HOL
  functions.  An exception of the source is a value \<open>Inl e\<close>; a result is
  \<open>Inr v\<close>.
\<close>

datatype js_error =
    TypeError
  | YAMLParseError
  | HandlebarsException
  | CollaboratorError string

fun bindE :: "js_error + 'a \<Rightarrow> ('a \<Rightarrow> js_error + 'b) \<Rightarrow> js_error + 'b" where
  "bindE (Inl e) f = Inl e"
| "bindE (Inr v) f = f v"

subsection \<open>Strings\<close>

definition startsWith :: "string \<Rightarrow> string \<Rightarrow> bool" where
  "startsWith s p = prefix p s"

definition endsWith :: "string \<Rightarrow> string \<Rightarrow> bool" where
  "endsWith s p = prefix (rev p) (rev s)"

text \<open>\<^verbatim>\<open>s.includes(sub)\<close>: \<open>sub\<close> occurs in \<open>s\<close> as a contiguous run.\<close>

fun includes_str :: "string \<Rightarrow> string \<Rightarrow> bool" where
  "includes_str [] sub = (sub = [])"
| "includes_str (c # cs) sub = (prefix sub (c # cs) \<or> includes_str cs sub)"

text \<open>
  \<^verbatim>\<open>s.trim()\<close>.  A string is the list of the bytes of its UTF-8 encoding, so
  a white space character or line terminator of JavaScript is one of the byte
  sequences of \<open>white_space\<close>: the six ASCII ones, then U+00A0, U+1680,
  U+2000 to U+200A, U+2028, U+2029, U+202F, U+205F, U+3000 and U+FEFF.
  \<open>strip_one ws s\<close> takes one sequence of \<open>ws\<close> off the front of \<open>s\<close>;
  \<open>trimStart_of ws\<close> does so as long as there is one.  The end of the string is
  trimmed on the reversed bytes.
\<close>

definition white_space :: "string list" where
  "white_space =
     [ [CHR 0x09], [CHR 0x0A], [CHR 0x0B], [CHR 0x0C], [CHR 0x0D], [CHR 0x20],
       [CHR 0xC2, CHR 0xA0],
       [CHR 0xE1, CHR 0x9A, CHR 0x80],
       [CHR 0xE2, CHR 0x80, CHR 0x80], [CHR 0xE2, CHR 0x80, CHR 0x81],
       [CHR 0xE2, CHR 0x80, CHR 0x82], [CHR 0xE2, CHR 0x80, CHR 0x83],
       [CHR 0xE2, CHR 0x80, CHR 0x84], [CHR 0xE2, CHR 0x80, CHR 0x85],
       [CHR 0xE2, CHR 0x80, CHR 0x86], [CHR 0xE2, CHR 0x80, CHR 0x87],
       [CHR 0xE2, CHR 0x80, CHR 0x88], [CHR 0xE2, CHR 0x80, CHR 0x89],
       [CHR 0xE2, CHR 0x80, CHR 0x8A],
       [CHR 0xE2, CHR 0x80, CHR 0xA8], [CHR 0xE2, CHR 0x80, CHR 0xA9],
       [CHR 0xE2, CHR 0x80, CHR 0xAF],
       [CHR 0xE2, CHR 0x81, CHR 0x9F],
       [CHR 0xE3, CHR 0x80, CHR 0x80],
       [CHR 0xEF, CHR 0xBB, CHR 0xBF] ]"

fun strip_one :: "string list \<Rightarrow> string \<Rightarrow> string option" where
  "strip_one [] s = None"
| "strip_one (w # ws) s =
     (if w \<noteq> [] \<and> prefix w s then Some (drop (length w) s) else strip_one ws s)"

function trimStart_of :: "string list \<Rightarrow> string \<Rightarrow> string" where
  "trimStart_of ws s = (case strip_one ws s of None \<Rightarrow> s | Some r \<Rightarrow> trimStart_of ws r)"
  by pat_completeness auto
termination
proof (relation "measure (\<lambda>p. length (snd p))")
  show "wf (measure (\<lambda>p. length (snd p)))" by simp
next
  fix ws :: "string list" and s r :: string
  assume "strip_one ws s = Some r"
  then have "length r < length s"
    by (induction ws) (auto simp: prefix_def split: if_split_asm)
  then show "((ws, r), (ws, s)) \<in> measure (\<lambda>p. length (snd p))" by simp
qed

declare trimStart_of.simps [simp del]

definition trim :: "string \<Rightarrow> string" where
  "trim s = rev (trimStart_of (map rev white_space) (rev (trimStart_of white_space s)))"

subsection \<open>Arrays\<close>

text \<open>
  A JavaScript array is the list of its elements and its other properties.
  An element is a value, \<^verbatim>\<open>undefined\<close>, or a hole (an index below the length
  that the array does not have).  A key is an element index when it is a
  number from 0 to \<open>2^32 - 2\<close>; the assignment \<^verbatim>\<open>xs[i] = v\<close> at any other
  number sets the property of that key and leaves the elements and the length
  as they are.  The index fields of the machine are taken as integers.

  \<^verbatim>\<open>xs[i]\<close> is \<open>arr_get xs i\<close>: the element at an index below the length
  (\<open>None\<close> when it is \<^verbatim>\<open>undefined\<close> or a hole), \<open>None\<close> at an element index
  past the end, and the property at any other key.
\<close>

datatype 'a slot = Hole | Undef | Elem 'a

fun slot_val :: "'a slot \<Rightarrow> 'a option" where
  "slot_val (Elem x) = Some x"
| "slot_val s = None"

record 'a js_array =
  elems :: "'a slot list"
  props :: "int \<rightharpoonup> 'a"

definition array_of :: "'a list \<Rightarrow> 'a js_array" where
  "array_of xs = \<lparr> elems = map Elem xs, props = Map.empty \<rparr>"

definition arr_length :: "'a js_array \<Rightarrow> int" where
  "arr_length xs = int (length (elems xs))"

definition is_element_index :: "int \<Rightarrow> bool" where
  "is_element_index i = (0 \<le> i \<and> i < 2 ^ 32 - 1)"

definition arr_get :: "'a js_array \<Rightarrow> int \<Rightarrow> 'a option" where
  "arr_get xs i =
     (if 0 \<le> i \<and> i < arr_length xs then slot_val (elems xs ! nat i)
      else if is_element_index i then None
      else props xs i)"

text \<open>
  \<^verbatim>\<open>xs.findIndex(cb)\<close> and \<^verbatim>\<open>xs.find(cb)\<close> for the callbacks of the machine:
  both visit every index below the length, holes included, and each callback
  reads a field of its argument first (\<^verbatim>\<open>tab.name\<close>, \<^verbatim>\<open>tab.preset\<close>), so it
  raises a TypeError on a hole or an \<^verbatim>\<open>undefined\<close> that is reached before a
  match.
\<close>

fun findIndex_from :: "('a \<Rightarrow> bool) \<Rightarrow> 'a slot list \<Rightarrow> int \<Rightarrow> js_error + int" where
  "findIndex_from p [] i = Inr (- 1)"
| "findIndex_from p (Elem x # xs) i = (if p x then Inr i else findIndex_from p xs (i + 1))"
| "findIndex_from p (s # xs) i = Inl TypeError"

definition findIndex :: "('a \<Rightarrow> bool) \<Rightarrow> 'a js_array \<Rightarrow> js_error + int" where
  "findIndex p xs = findIndex_from p (elems xs) 0"

fun find_from :: "('a \<Rightarrow> bool) \<Rightarrow> 'a slot list \<Rightarrow> js_error + 'a option" where
  "find_from p [] = Inr None"
| "find_from p (Elem x # xs) = (if p x then Inr (Some x) else find_from p xs)"
| "find_from p (s # xs) = Inl TypeError"

definition find_js :: "('a \<Rightarrow> bool) \<Rightarrow> 'a js_array \<Rightarrow> js_error + 'a option" where
  "find_js p xs = find_from p (elems xs)"

text \<open>
  The elements of the copy \<^verbatim>\<open>[...xs]\<close>: a hole is copied as \<^verbatim>\<open>undefined\<close>,
  and the properties that are not elements are not copied.
\<close>

fun fill_hole :: "'a slot \<Rightarrow> 'a slot" where
  "fill_hole Hole = Undef"
| "fill_hole s = s"

definition spread :: "'a js_array \<Rightarrow> 'a slot list" where
  "spread xs = map fill_hole (elems xs)"

text \<open>\<^verbatim>\<open>[...xs, v]\<close>.\<close>

definition append_elem :: "'a js_array \<Rightarrow> 'a \<Rightarrow> 'a js_array" where
  "append_elem xs v = \<lparr> elems = spread xs @ [Elem v], props = Map.empty \<rparr>"

text \<open>
  The helpers of the \<^verbatim>\<open>pastable\<close> package.
  \<^item> \<^verbatim>\<open>updateAtIndex(xs, i, v)\<close> copies the array (\<^verbatim>\<open>[...xs]\<close>) and assigns
    \<^verbatim>\<open>clone[i] = v\<close>: below the length it replaces the element; at an element
    index past the end the array grows, with holes in between; at any other
    key (a negative number, a number from \<open>2^32 - 1\<close> on) it sets a property
    of the copy.
  \<^item> \<^verbatim>\<open>removeAtIndex(xs, i)\<close> is \<^verbatim>\<open>xs.filter((_, idx) => idx !== i)\<close>: the
    elements at the other indices, in order; \<^verbatim>\<open>filter\<close> skips the holes, so
    the result has none, and it removes nothing when \<open>i\<close> is no index of the
    array.  No field of an element that stays is touched.
  \<^item> \<^verbatim>\<open>limit(n, [lo, hi])\<close> is \<^verbatim>\<open>Math.min(Math.max(n, lo), hi)\<close>.
\<close>

definition updateAtIndex :: "'a js_array \<Rightarrow> int \<Rightarrow> 'a \<Rightarrow> 'a js_array" where
  "updateAtIndex xs i v =
     (if 0 \<le> i \<and> i < arr_length xs
      then \<lparr> elems = (spread xs)[nat i := Elem v], props = Map.empty \<rparr>
      else if is_element_index i
      then \<lparr> elems = spread xs @ replicate (nat i - length (elems xs)) Hole @ [Elem v],
             props = Map.empty \<rparr>
      else \<lparr> elems = spread xs, props = [i \<mapsto> v] \<rparr>)"

fun without_index :: "'a slot list \<Rightarrow> int \<Rightarrow> int \<Rightarrow> 'a slot list" where
  "without_index [] k i = []"
| "without_index (Hole # xs) k i = without_index xs (k + 1) i"
| "without_index (s # xs) k i =
     (if k = i then without_index xs (k + 1) i else s # without_index xs (k + 1) i)"

definition removeAtIndex :: "'a js_array \<Rightarrow> int \<Rightarrow> 'a js_array" where
  "removeAtIndex xs i = \<lparr> elems = without_index (elems xs) 0 i, props = Map.empty \<rparr>"

definition limit :: "int \<Rightarrow> int \<Rightarrow> int \<Rightarrow> int" where
  "limit nb lo hi = min (max nb lo) hi"

subsection \<open>Objects keyed by strings\<close>

text \<open>
  An object used as a record of string keys is the list of its own properties
  in the order of their creation, each key once.  Its enumeration
  (\<^verbatim>\<open>Object.keys\<close>, \<^verbatim>\<open>Object.entries\<close>, \<^verbatim>\<open>for ... in\<close>) lists the keys that are
  array indices first, in ascending numeric order, then the other keys in
  creation order.  A key is an array index when it is the decimal numeral,
  without leading zeros, of a number below \<open>2^32 - 1\<close>.
\<close>

type_synonym 'v js_obj = "(string \<times> 'v) list"

definition is_digit :: "char \<Rightarrow> bool" where
  "is_digit c = (c \<in> set ''0123456789'')"

definition digits_val :: "string \<Rightarrow> nat" where
  "digits_val s = foldl (\<lambda>a c. 10 * a + (of_char c - 48)) 0 s"

definition is_array_index :: "string \<Rightarrow> bool" where
  "is_array_index s =
     (s \<noteq> [] \<and> list_all is_digit s \<and> (if hd s = CHR ''0'' then s = ''0'' else True)
      \<and> digits_val s < 2 ^ 32 - 1)"

fun obj_set :: "string \<Rightarrow> 'v \<Rightarrow> 'v js_obj \<Rightarrow> 'v js_obj" where
  "obj_set k v [] = [(k, v)]"
| "obj_set k v ((k', v') # r) = (if k = k' then (k, v) # r else (k', v') # obj_set k v r)"

text \<open>
  The assignment \<^verbatim>\<open>obj[k] = v\<close> of a string \<open>v\<close> on an object literal: it
  creates or overwrites the own property \<open>k\<close>, but for the key
  \<^verbatim>\<open>__proto__\<close>, whose setter ignores a value that is not an object.
\<close>

definition obj_assign :: "string \<Rightarrow> 'v \<Rightarrow> 'v js_obj \<Rightarrow> 'v js_obj" where
  "obj_assign k v obj = (if k = ''__proto__'' then obj else obj_set k v obj)"

definition obj_entries :: "'v js_obj \<Rightarrow> (string \<times> 'v) list" where
  "obj_entries obj =
     sort_key (\<lambda>kv. digits_val (fst kv)) (filter (\<lambda>kv. is_array_index (fst kv)) obj)
     @ filter (\<lambda>kv. \<not> is_array_index (fst kv)) obj"

definition obj_keys :: "'v js_obj \<Rightarrow> string list" where
  "obj_keys obj = map fst (obj_entries obj)"

text \<open>\<^verbatim>\<open>Object.fromEntries\<close>: a later entry of a key overwrites the earlier one.\<close>

definition obj_fromEntries :: "(string \<times> 'v) list \<Rightarrow> 'v js_obj" where
  "obj_fromEntries kvs = foldl (\<lambda>obj kv. obj_set (fst kv) (snd kv) obj) [] kvs"

section \<open>The data of the machine\<close>

record FileTabData =
  name :: string
  content :: string
  index :: int
  preset :: "string option"

datatype opt_val = OStr string | OBool bool | ONum int

text \<open>
  \<^verbatim>\<open>OptionsFormValues\<close>: the generation options by key.  The machine reads the
  key \<^verbatim>\<open>groupStrategy\<close> and writes \<^verbatim>\<open>groupStrategy\<close> and \<^verbatim>\<open>apiClientName\<close>.
\<close>

type_synonym OptionsFormValues = "string \<rightharpoonup> opt_val"

text \<open>
  An entry of \<^verbatim>\<open>presetTemplateList\<close> (\<^verbatim>\<open>Playground.consts\<close>): the fields the
  machine reads are \<^verbatim>\<open>value\<close>, \<^verbatim>\<open>template\<close> and the optional \<^verbatim>\<open>options\<close>.
\<close>

record PresetTemplate =
  pt_value :: string
  pt_template :: string
  pt_options :: "OptionsFormValues option"

text \<open>
  \<^verbatim>\<open>TemplateContext\<close> of \<^verbatim>\<open>openapi-zod-client\<close>: the machine reads the keys of
  \<^verbatim>\<open>endpointsGroups\<close> and the optional set \<^verbatim>\<open>commonSchemaNames\<close> (a JavaScript
  Set iterates in insertion order: a list) and hands everything else to the
  templates.
\<close>

record 'x TemplateContext =
  endpointsGroups :: "'x js_obj"
  commonSchemaNames :: "string list option"
  otherFields :: 'x

type_synonym editor_ref = nat
type_synonym monaco_ref = nat

record 'x PlaygroundContext =
  monaco :: "monaco_ref option"
  inputEditor :: "editor_ref option"
  outputEditor :: "editor_ref option"
  options :: OptionsFormValues
  previewOptions :: OptionsFormValues
  optionsFormKey :: int
  activeInputTab :: string
  activeInputIndex :: int
  inputList :: "FileTabData js_array"
  activeOutputTab :: string
  activeOutputIndex :: int
  outputList :: "FileTabData list"
  selectedOpenApiFileName :: string
  selectedTemplateName :: string
  selectedPrettierConfig :: string
  templateContext :: "'x TemplateContext option"
  presetTemplates :: "string \<rightharpoonup> string"
  fileForm :: FileTabData

datatype editor_name = InputEditor | OutputEditor

datatype PlaygroundEvent =
    Editor_Loaded editor_ref editor_name "monaco_ref option"
  | Update_input string
  | Select_input_tab FileTabData
  | Select_output_tab FileTabData
  | Select_preset_template PresetTemplate
  | Open_options
  | Close_options
  | Open_monaco_settings
  | Add_file
  | Edit_file FileTabData
  | Remove_file FileTabData
  | Save
  | Share
  | Update_preview_options OptionsFormValues
  | Reset_preview_options
  | Save_options OptionsFormValues
  | Update_monaco_settings
  | Submit_file_modal FileTabData
  | Close_modal
  | Resize
  | Done_getPresetTemplates "string \<rightharpoonup> string"

text \<open>\<^verbatim>\<open>event.tab\<close>: \<^verbatim>\<open>undefined\<close> on an event that carries no tab.\<close>

fun event_tab :: "PlaygroundEvent \<Rightarrow> FileTabData option" where
  "event_tab (Select_input_tab t) = Some t"
| "event_tab (Select_output_tab t) = Some t"
| "event_tab (Edit_file t) = Some t"
| "event_tab (Remove_file t) = Some t"
| "event_tab (Submit_file_modal t) = Some t"
| "event_tab _ = None"

subsection \<open>The collaborators\<close>

text \<open>
  What a template is rendered with: the argument of the compiled template of
  each of the four calls of \<^verbatim>\<open>updateOutput\<close>.
  \<^item> \<open>IndexArg groupNames\<close>: \<^verbatim>\<open>{ groupNames }\<close>;
  \<^item> \<open>CommonArg tc names\<close>: \<^verbatim>\<open>{ schemas: pick(tc.schemas, names), types: pick(tc.types, names) }\<close>;
  \<^item> \<open>GroupArg tc g opts\<close>: \<^verbatim>\<open>{ ...tc, ...tc.endpointsGroups[g], options: opts }\<close>;
  \<^item> \<open>FullArg tc opts\<close>: \<^verbatim>\<open>{ ...tc, options: opts }\<close>.
\<close>

datatype 'x render_arg =
    IndexArg "string js_obj"
  | CommonArg "'x TemplateContext" "string list"
  | GroupArg "'x TemplateContext" string OptionsFormValues
  | FullArg "'x TemplateContext" OptionsFormValues

text \<open>
  The functions and constants the machine imports, as parameters:
  \<^item> \<open>safeJSONParse\<close> (\<^verbatim>\<open>pastable\<close>): \<^verbatim>\<open>JSON.parse\<close> that returns \<^verbatim>\<open>null\<close>
    instead of raising; \<open>None\<close> stands for \<^verbatim>\<open>null\<close> and the other falsy
    values, which the machine does not tell apart;
  \<^item> \<open>yaml_parse\<close> (\<^verbatim>\<open>parse\<close> of the \<^verbatim>\<open>yaml\<close> package): raises on a document
    that does not parse; \<open>Inr None\<close> is a falsy document;
  \<^item> \<open>getZodClientTemplateContext\<close>, which may raise on a document that is
    not an OpenAPI description;
  \<^item> \<open>hbs_render t arg\<close>: \<^verbatim>\<open>getHandlebars().compile(t)(arg)\<close>, for a string
    \<open>t\<close>; a template that does not compile raises when it is rendered;
  \<^item> \<open>maybePretty\<close>: formatting, which returns its input when the formatter
    fails;
  \<^item> \<open>capitalize\<close> (\<^verbatim>\<open>pastable\<close>);
  \<^item> \<open>presetTemplateList\<close> (\<^verbatim>\<open>Playground.consts\<close>),
    \<open>defaultOptionValues\<close> (\<^verbatim>\<open>OptionsForm\<close>) and the three default contents of
    \<^verbatim>\<open>presets\<close>.
\<close>

record ('j, 'x) collaborators =
  safeJSONParse :: "string \<Rightarrow> 'j option"
  yaml_parse :: "string \<Rightarrow> js_error + 'j option"
  getZodClientTemplateContext :: "'j \<Rightarrow> OptionsFormValues \<Rightarrow> js_error + 'x TemplateContext"
  hbs_render :: "string \<Rightarrow> 'x render_arg \<Rightarrow> js_error + string"
  maybePretty :: "string \<Rightarrow> 'j option \<Rightarrow> string"
  capitalize :: "string \<Rightarrow> string"
  presetTemplateList :: "PresetTemplate list"
  defaultOptionValues :: OptionsFormValues
  defaultInput :: string
  defaultTemplate :: string
  defaultPrettierConfig :: string

subsection \<open>The initial context\<close>

definition initialInputList :: "('j, 'x) collaborators \<Rightarrow> FileTabData list" where
  "initialInputList env =
     [ \<lparr> name = ''api.doc.yaml'', content = defaultInput env, index = 0,
         preset = Some ''petstore.yaml'' \<rparr>,
       \<lparr> name = ''template.hbs'', content = defaultTemplate env, index = 1,
         preset = (case presetTemplateList env of [] \<Rightarrow> None | p # _ \<Rightarrow> Some (pt_value p)) \<rparr>,
       \<lparr> name = ''.prettierrc.json'', content = defaultPrettierConfig env, index = 2,
         preset = Some ''prettier'' \<rparr> ]"

definition initialOuputTab :: string where
  "initialOuputTab = ''api.client.ts''"

definition initial_context :: "('j, 'x) collaborators \<Rightarrow> 'x PlaygroundContext" where
  "initial_context env =
     \<lparr> monaco = None, inputEditor = None, outputEditor = None,
       options = defaultOptionValues env, previewOptions = defaultOptionValues env,
       optionsFormKey = 0,
       activeInputTab = ''api.doc.yaml'', activeInputIndex = 0,
       inputList = array_of (initialInputList env),
       activeOutputTab = initialOuputTab, activeOutputIndex = 0,
       outputList = [\<lparr> name = initialOuputTab, content = [], index = 0, preset = None \<rparr>],
       selectedOpenApiFileName = ''api.doc.yaml'',
       selectedTemplateName = ''template.hbs'',
       selectedPrettierConfig = ''.prettierrc.json'',
       templateContext = None, presetTemplates = Map.empty,
       fileForm = \<lparr> name = [], content = [], index = - 1, preset = None \<rparr> \<rparr>"

subsection \<open>Role classification by name\<close>

definition isValidPrettierConfig :: "string \<Rightarrow> bool" where
  "isValidPrettierConfig nm = (startsWith nm ''.prettier'' \<and> endsWith nm ''.json'')"

definition isValidDocumentName :: "string \<Rightarrow> bool" where
  "isValidDocumentName nm =
     (\<not> isValidPrettierConfig nm
      \<and> (endsWith nm ''.yml'' \<or> endsWith nm ''.yaml'' \<or> endsWith nm ''.json''))"

definition isValidTemplateName :: "string \<Rightarrow> bool" where
  "isValidTemplateName nm = endsWith nm ''.hbs''"

section \<open>The regeneration pipeline: \<^verbatim>\<open>updateOutput\<close>\<close>

text \<open>
  The document text of \<^verbatim>\<open>updateOutput\<close> (lines 278 to 284): the content of
  the tab that \<open>selectedOpenApiFileName\<close> names, the empty string when there is
  none, and the content of the submitted tab on a \<^verbatim>\<open>Submit file modal\<close> event.
\<close>

definition document_input :: "'x PlaygroundContext \<Rightarrow> PlaygroundEvent \<Rightarrow> js_error + string" where
  "document_input ctx ev =
     bindE (findIndex (\<lambda>item. name item = selectedOpenApiFileName ctx) (inputList ctx))
       (\<lambda>documentIndex.
          Inr (case ev of
                 Submit_file_modal tab \<Rightarrow> content tab
               | _ \<Rightarrow> (case arr_get (inputList ctx) documentIndex of
                         Some item \<Rightarrow> content item
                       | None \<Rightarrow> [])))"

definition parse_document :: "('j, 'x) collaborators \<Rightarrow> string \<Rightarrow> js_error + 'j option" where
  "parse_document env input =
     (if startsWith input ''{'' then Inr (safeJSONParse env input) else yaml_parse env input)"

text \<open>
  \<^verbatim>\<open>templateString\<close> (lines 303 to 309): the catalog's text under the template
  key of the preset whose value is \<open>selectedTemplateName\<close> (under the key
  \<^verbatim>\<open>""\<close> when no preset has that value), else the content of the template tab,
  else the empty string.
\<close>

definition templateString ::
  "('j, 'x) collaborators \<Rightarrow> 'x PlaygroundContext \<Rightarrow> FileTabData option \<Rightarrow> string" where
  "templateString env ctx templateTab =
     (case presetTemplates ctx
             (case List.find (\<lambda>p. pt_value p = selectedTemplateName ctx) (presetTemplateList env) of
                Some p \<Rightarrow> pt_template p
              | None \<Rightarrow> []) of
        Some s \<Rightarrow> s
      | None \<Rightarrow> (case templateTab of Some item \<Rightarrow> content item | None \<Rightarrow> []))"

text \<open>
  \<^verbatim>\<open>options.groupStrategy.includes("file")\<close>: a TypeError when the option is
  missing or is not a string.
\<close>

definition groupStrategy_includes_file :: "OptionsFormValues \<Rightarrow> js_error + bool" where
  "groupStrategy_includes_file opts =
     (case opts ''groupStrategy'' of
        Some (OStr s) \<Rightarrow> Inr (includes_str s ''file'')
      | _ \<Rightarrow> Inl TypeError)"

definition groupNames ::
  "('j, 'x) collaborators \<Rightarrow> 'x TemplateContext \<Rightarrow> string js_obj" where
  "groupNames env tc =
     obj_fromEntries
       (map (\<lambda>groupName. (capitalize env groupName @ ''Api'', groupName))
          (obj_keys (endpointsGroups tc)))"

text \<open>The loop over the groups (lines 346 to 357), on the keys still to visit.\<close>

fun render_groups ::
  "('j, 'x) collaborators \<Rightarrow> string \<Rightarrow> 'x TemplateContext \<Rightarrow> OptionsFormValues \<Rightarrow> 'j option
     \<Rightarrow> string list \<Rightarrow> string js_obj \<Rightarrow> js_error + string js_obj" where
  "render_groups env t tc opts prettierConfig [] outputByGroupName = Inr outputByGroupName"
| "render_groups env t tc opts prettierConfig (groupName # rest) outputByGroupName =
     (case hbs_render env t
             (GroupArg tc groupName
                (opts(''groupStrategy'' \<mapsto> OStr ''none'',
                      ''apiClientName'' \<mapsto> OStr (capitalize env groupName @ ''Api'')))) of
        Inl e \<Rightarrow> Inl e
      | Inr groupOutput \<Rightarrow>
          render_groups env t tc opts prettierConfig rest
            (obj_assign groupName (maybePretty env groupOutput prettierConfig) outputByGroupName))"

text \<open>
  \<^verbatim>\<open>hbs.compile(ctx.presetTemplates[key])\<close> raises at once on a template that
  is \<^verbatim>\<open>undefined\<close>: when the catalog has no text under the key.
\<close>

definition compile_preset :: "'x PlaygroundContext \<Rightarrow> string \<Rightarrow> js_error + string" where
  "compile_preset ctx key =
     (case presetTemplates ctx key of None \<Rightarrow> Inl HandlebarsException | Some t \<Rightarrow> Inr t)"

text \<open>The common artifact (lines 333 to 344), when there are common schema names.\<close>

definition common_output ::
  "('j, 'x) collaborators \<Rightarrow> 'x TemplateContext \<Rightarrow> string \<Rightarrow> 'j option \<Rightarrow> string js_obj
     \<Rightarrow> js_error + string js_obj" where
  "common_output env tc commonTemplate prettierConfig outputByGroupName =
     (case commonSchemaNames tc of
        Some (n # ns) \<Rightarrow>
          bindE (hbs_render env commonTemplate (CommonArg tc (n # ns)))
            (\<lambda>commonOutput.
               Inr (obj_set ''common'' (maybePretty env commonOutput prettierConfig)
                      outputByGroupName))
      | _ \<Rightarrow> Inr outputByGroupName)"

text \<open>\<^verbatim>\<open>outputByGroupName\<close> (lines 319 to 357).\<close>

definition grouped_outputs ::
  "('j, 'x) collaborators \<Rightarrow> 'x PlaygroundContext \<Rightarrow> string \<Rightarrow> 'x TemplateContext \<Rightarrow> 'j option
     \<Rightarrow> js_error + string js_obj" where
  "grouped_outputs env ctx t tc prettierConfig =
     bindE (compile_preset ctx ''template-grouped-index'') (\<lambda>indexTemplate.
     bindE (hbs_render env indexTemplate (IndexArg (groupNames env tc))) (\<lambda>indexOutput.
     bindE (compile_preset ctx ''template-grouped-common'') (\<lambda>commonTemplate.
     bindE (common_output env tc commonTemplate prettierConfig
              (obj_set ''index'' (maybePretty env indexOutput prettierConfig) []))
       (render_groups env t tc (options ctx) prettierConfig
          (obj_keys (endpointsGroups tc))))))"

text \<open>
  \<^verbatim>\<open>Object.entries(outputByGroupName).map(([name, content], index) => ...)\<close>,
  from the position \<open>i\<close> on.
\<close>

fun to_outputList :: "int \<Rightarrow> (string \<times> string) list \<Rightarrow> FileTabData list" where
  "to_outputList i [] = []"
| "to_outputList i ((k, v) # rest) =
     \<lparr> name = k @ ''.ts'', content = v, index = i, preset = None \<rparr> # to_outputList (i + 1) rest"

text \<open>\<^verbatim>\<open>outputList[0]\<close>, whose name is read: a TypeError on an empty list.\<close>

definition first_output :: "FileTabData list \<Rightarrow> js_error + FileTabData" where
  "first_output outs = (case outs of [] \<Rightarrow> Inl TypeError | first # rest \<Rightarrow> Inr first)"

text \<open>
  The outputs (lines 317 to 398), for the template context, the template
  text and the formatter configuration.  The calls on the editors and on
  monaco (setValue, createModel, the console) change nothing of the context
  and are left out.
\<close>

definition write_outputs ::
  "('j, 'x) collaborators \<Rightarrow> 'x PlaygroundContext \<Rightarrow> 'x TemplateContext \<Rightarrow> string \<Rightarrow> 'j option
     \<Rightarrow> js_error + 'x PlaygroundContext" where
  "write_outputs env ctx tc t prettierConfig =
     bindE (groupStrategy_includes_file (options ctx)) (\<lambda>grouped.
       if grouped then
         bindE (grouped_outputs env ctx t tc prettierConfig) (\<lambda>outputByGroupName.
         bindE (first_output (to_outputList 0 (obj_entries outputByGroupName))) (\<lambda>first.
           Inr (ctx\<lparr> outputList := to_outputList 0 (obj_entries outputByGroupName),
                     activeOutputIndex := 0,
                     activeOutputTab := name first \<rparr>)))
       else
         bindE (hbs_render env t (FullArg tc (options ctx))) (\<lambda>output.
           Inr (ctx\<lparr> templateContext := Some tc,
                     outputList :=
                       [\<lparr> name = initialOuputTab,
                          content = maybePretty env output prettierConfig,
                          index = 0, preset = None \<rparr>] \<rparr>)))"

text \<open>\<^verbatim>\<open>updateOutput\<close> from line 286 on, for the document text \<open>input\<close>.\<close>

definition generate_output ::
  "('j, 'x) collaborators \<Rightarrow> 'x PlaygroundContext \<Rightarrow> string \<Rightarrow> js_error + 'x PlaygroundContext" where
  "generate_output env ctx input =
     (if input = [] then Inr ctx
      else
        bindE (parse_document env input) (\<lambda>openApiDoc.
          case openApiDoc of
            None \<Rightarrow> Inr ctx
          | Some doc \<Rightarrow>
              bindE (getZodClientTemplateContext env doc (options ctx)) (\<lambda>tc.
              bindE (find_js (\<lambda>item. name item = selectedTemplateName ctx) (inputList ctx))
                (\<lambda>templateTab.
                   if templateString env ctx templateTab = [] then Inr ctx
                   else
                     bindE (find_js (\<lambda>tab. name tab = selectedPrettierConfig ctx) (inputList ctx))
                       (\<lambda>prettierTab.
                          write_outputs env ctx tc (templateString env ctx templateTab)
                            (safeJSONParse env
                               (case prettierTab of
                                  Some tab \<Rightarrow> content tab
                                | None \<Rightarrow> ''{}'')))))))"

definition updateOutput ::
  "('j, 'x) collaborators \<Rightarrow> 'x PlaygroundContext \<Rightarrow> PlaygroundEvent
     \<Rightarrow> js_error + 'x PlaygroundContext" where
  "updateOutput env ctx ev = bindE (document_input ctx ev) (generate_output env ctx)"

section \<open>The actions\<close>

text \<open>
  An action maps the context (and what it reads of the event) to the next
  context.  An \<^verbatim>\<open>assign\<close> with one function per property evaluates each
  function on the context as it is before the action.
\<close>

fun assignEditorRef :: "'x PlaygroundContext \<Rightarrow> editor_ref \<Rightarrow> editor_name \<Rightarrow> monaco_ref option
    \<Rightarrow> 'x PlaygroundContext" where
  "assignEditorRef ctx ed InputEditor mon = ctx\<lparr> inputEditor := Some ed \<rparr>"
| "assignEditorRef ctx ed OutputEditor mon = ctx\<lparr> outputEditor := Some ed, monaco := mon \<rparr>"

text \<open>
  \<^verbatim>\<open>updateInputEditorValue\<close> writes to the editor only; it raises when an
  input editor is there and \<^verbatim>\<open>ctx.inputList[ctx.activeInputIndex]\<close> is
  \<^verbatim>\<open>undefined\<close>.
\<close>

definition updateInputEditorValue :: "'x PlaygroundContext \<Rightarrow> js_error + 'x PlaygroundContext" where
  "updateInputEditorValue ctx =
     (case inputEditor ctx of
        None \<Rightarrow> Inr ctx
      | Some ed \<Rightarrow>
          (case arr_get (inputList ctx) (activeInputIndex ctx) of
             None \<Rightarrow> Inl TypeError
           | Some tab \<Rightarrow> Inr ctx))"

text \<open>
  \<^verbatim>\<open>updateInput\<close> runs after the guard \<^verbatim>\<open>wasInputEmpty\<close>, which has read the
  content of the active tab: the tab is there (the branch for a missing tab is
  never taken).
\<close>

definition updateInput :: "'x PlaygroundContext \<Rightarrow> string \<Rightarrow> 'x PlaygroundContext" where
  "updateInput ctx v =
     (case arr_get (inputList ctx) (activeInputIndex ctx) of
        Some tab \<Rightarrow>
          ctx\<lparr> inputList := updateAtIndex (inputList ctx) (activeInputIndex ctx) (tab\<lparr> content := v \<rparr>) \<rparr>
      | None \<Rightarrow> ctx)"

definition selectInputTab ::
  "'x PlaygroundContext \<Rightarrow> FileTabData \<Rightarrow> js_error + 'x PlaygroundContext" where
  "selectInputTab ctx evtab =
     bindE (findIndex (\<lambda>tab. name tab = name evtab) (inputList ctx))
       (\<lambda>i. Inr (ctx\<lparr> activeInputTab := name evtab, activeInputIndex := i \<rparr>))"

text \<open>
  The three role pointers.  \<open>next_selectedOpenApiFileName\<close> and its two
  siblings are the property functions of the three \<^verbatim>\<open>assign\<close> actions.
\<close>

definition next_selectedOpenApiFileName ::
  "'x PlaygroundContext \<Rightarrow> PlaygroundEvent \<Rightarrow> js_error + string" where
  "next_selectedOpenApiFileName ctx ev =
     (case ev of
        Remove_file evtab \<Rightarrow>
          bindE (findIndex (\<lambda>tab. isValidDocumentName (name tab)) (inputList ctx))
            (\<lambda>nextIndex.
               if nextIndex = - 1 then Inr (selectedOpenApiFileName ctx)
               else (case arr_get (inputList ctx) nextIndex of
                       None \<Rightarrow> Inl TypeError
                     | Some tab \<Rightarrow> Inr (name tab)))
      | _ \<Rightarrow>
          (case event_tab ev of
             None \<Rightarrow> Inl TypeError
           | Some evtab \<Rightarrow>
               if content evtab = [] then Inr (selectedOpenApiFileName ctx)
               else
                 bindE (findIndex (\<lambda>tab. name tab = name evtab) (inputList ctx))
                   (\<lambda>nextIndex.
                      if nextIndex = - 1 then Inr (selectedOpenApiFileName ctx)
                      else (case arr_get (inputList ctx) nextIndex of
                              None \<Rightarrow> Inl TypeError
                            | Some tab \<Rightarrow>
                                if isValidDocumentName (name tab) then Inr (name evtab)
                                else
                                  bindE (find_js (\<lambda>tab. isValidDocumentName (name tab)) (inputList ctx))
                                    (\<lambda>found.
                                       Inr (case found of Some tab \<Rightarrow> name tab | None \<Rightarrow> []))))))"

definition next_selectedTemplateName ::
  "'x PlaygroundContext \<Rightarrow> PlaygroundEvent \<Rightarrow> js_error + string" where
  "next_selectedTemplateName ctx ev =
     (case ev of
        Remove_file evtab \<Rightarrow>
          bindE (findIndex (\<lambda>tab. isValidTemplateName (name tab)) (inputList ctx))
            (\<lambda>nextIndex.
               if nextIndex = - 1 then Inr (selectedTemplateName ctx)
               else (case arr_get (inputList ctx) nextIndex of
                       None \<Rightarrow> Inl TypeError
                     | Some tab \<Rightarrow> Inr (name tab)))
      | _ \<Rightarrow>
          (case event_tab ev of
             None \<Rightarrow> Inl TypeError
           | Some evtab \<Rightarrow>
               if content evtab = [] then Inr (selectedTemplateName ctx)
               else
                 bindE (findIndex (\<lambda>tab. name tab = name evtab) (inputList ctx))
                   (\<lambda>nextIndex.
                      if nextIndex = - 1 then Inr (selectedTemplateName ctx)
                      else (case arr_get (inputList ctx) nextIndex of
                              None \<Rightarrow> Inl TypeError
                            | Some tab \<Rightarrow>
                                if isValidTemplateName (name tab) then Inr (name evtab)
                                else Inr (selectedTemplateName ctx)))))"

definition next_selectedPrettierConfig ::
  "'x PlaygroundContext \<Rightarrow> PlaygroundEvent \<Rightarrow> js_error + string" where
  "next_selectedPrettierConfig ctx ev =
     (case ev of
        Remove_file evtab \<Rightarrow>
          bindE (findIndex (\<lambda>tab. isValidPrettierConfig (name tab)) (inputList ctx))
            (\<lambda>nextIndex.
               if nextIndex = - 1 then Inr (selectedPrettierConfig ctx)
               else (case arr_get (inputList ctx) nextIndex of
                       None \<Rightarrow> Inl TypeError
                     | Some tab \<Rightarrow> Inr (name tab)))
      | _ \<Rightarrow>
          (case event_tab ev of
             None \<Rightarrow> Inl TypeError
           | Some evtab \<Rightarrow>
               if content evtab = [] then Inr (selectedPrettierConfig ctx)
               else
                 bindE (findIndex (\<lambda>tab. name tab = name evtab) (inputList ctx))
                   (\<lambda>nextIndex.
                      if nextIndex = - 1 then Inr (selectedPrettierConfig ctx)
                      else (case arr_get (inputList ctx) nextIndex of
                              None \<Rightarrow> Inl TypeError
                            | Some tab \<Rightarrow>
                                if isValidPrettierConfig (name tab) then Inr (name evtab)
                                else Inr (selectedPrettierConfig ctx)))))"

definition updateSelectedOpenApiFileName ::
  "'x PlaygroundContext \<Rightarrow> PlaygroundEvent \<Rightarrow> js_error + 'x PlaygroundContext" where
  "updateSelectedOpenApiFileName ctx ev =
     bindE (next_selectedOpenApiFileName ctx ev) (\<lambda>v. Inr (ctx\<lparr> selectedOpenApiFileName := v \<rparr>))"

definition updateSelectedTemplateName ::
  "'x PlaygroundContext \<Rightarrow> PlaygroundEvent \<Rightarrow> js_error + 'x PlaygroundContext" where
  "updateSelectedTemplateName ctx ev =
     bindE (next_selectedTemplateName ctx ev) (\<lambda>v. Inr (ctx\<lparr> selectedTemplateName := v \<rparr>))"

definition updateSelectedPrettierConfig ::
  "'x PlaygroundContext \<Rightarrow> PlaygroundEvent \<Rightarrow> js_error + 'x PlaygroundContext" where
  "updateSelectedPrettierConfig ctx ev =
     bindE (next_selectedPrettierConfig ctx ev) (\<lambda>v. Inr (ctx\<lparr> selectedPrettierConfig := v \<rparr>))"

definition updateSelectedDocOrTemplate ::
  "'x PlaygroundContext \<Rightarrow> js_error + 'x PlaygroundContext" where
  "updateSelectedDocOrTemplate ctx =
     (case arr_get (inputList ctx) (activeInputIndex ctx) of
        None \<Rightarrow> Inl TypeError
      | Some tab \<Rightarrow>
          Inr (ctx\<lparr> selectedOpenApiFileName :=
                      (if isValidDocumentName (name tab) then name tab else selectedOpenApiFileName ctx),
                    selectedTemplateName :=
                      (if isValidTemplateName (name tab) then name tab else selectedTemplateName ctx) \<rparr>))"

definition selectOutputTab ::
  "'x PlaygroundContext \<Rightarrow> FileTabData \<Rightarrow> js_error + 'x PlaygroundContext" where
  "selectOutputTab ctx evtab =
     bindE (findIndex (\<lambda>tab. name tab = name evtab) (array_of (outputList ctx)))
       (\<lambda>i. Inr (ctx\<lparr> activeOutputTab := name evtab, activeOutputIndex := i \<rparr>))"

text \<open>
  \<^verbatim>\<open>selectPresetTemplate\<close>.  The tab that \<^verbatim>\<open>findIndex\<close> has found is there
  (the branch for a missing tab is never taken).
\<close>

definition selectPresetTemplate_inputList ::
  "'x PlaygroundContext \<Rightarrow> PresetTemplate \<Rightarrow> js_error + FileTabData js_array" where
  "selectPresetTemplate_inputList ctx template =
     (case presetTemplates ctx (pt_template template) of
        None \<Rightarrow> Inr (inputList ctx)
      | Some c \<Rightarrow>
          if c = [] then Inr (inputList ctx)
          else
            bindE (findIndex
                     (\<lambda>tab. (case preset tab of Some p \<Rightarrow> p \<noteq> [] | None \<Rightarrow> False)
                            \<and> isValidTemplateName (name tab))
                     (inputList ctx))
              (\<lambda>presetTemplateIndex.
                 if presetTemplateIndex = - 1 then Inr (inputList ctx)
                 else (case arr_get (inputList ctx) presetTemplateIndex of
                         None \<Rightarrow> Inr (inputList ctx)
                       | Some tab \<Rightarrow>
                           Inr (updateAtIndex (inputList ctx) presetTemplateIndex
                                  (tab\<lparr> content := c, preset := Some (pt_value template) \<rparr>)))))"

definition selectPresetTemplate ::
  "'x PlaygroundContext \<Rightarrow> PresetTemplate \<Rightarrow> js_error + 'x PlaygroundContext" where
  "selectPresetTemplate ctx template =
     bindE (selectPresetTemplate_inputList ctx template)
       (\<lambda>l. Inr (ctx\<lparr> selectedTemplateName := pt_value template,
                       inputList := l,
                       options := (case pt_options template of
                                     None \<Rightarrow> options ctx
                                   | Some o' \<Rightarrow> options ctx ++ o') \<rparr>))"

definition initFileForm :: "'x PlaygroundContext \<Rightarrow> 'x PlaygroundContext" where
  "initFileForm ctx =
     ctx\<lparr> fileForm := \<lparr> name = [], content = [], index = arr_length (inputList ctx),
                         preset = None \<rparr> \<rparr>"

definition assignFileToForm :: "'x PlaygroundContext \<Rightarrow> FileTabData \<Rightarrow> 'x PlaygroundContext" where
  "assignFileToForm ctx evtab = ctx\<lparr> fileForm := evtab \<rparr>"

text \<open>
  \<^verbatim>\<open>removeFile\<close>: \<^verbatim>\<open>next[nextIndex].name\<close> raises when the list is left
  empty, or holds \<^verbatim>\<open>undefined\<close> there.
\<close>

definition removeFile ::
  "'x PlaygroundContext \<Rightarrow> FileTabData \<Rightarrow> js_error + 'x PlaygroundContext" where
  "removeFile ctx evtab =
     (let next = removeAtIndex (inputList ctx) (index evtab)
      in if activeInputIndex ctx \<noteq> index evtab then Inr (ctx\<lparr> inputList := next \<rparr>)
         else
           (let nextIndex = limit (index evtab) 0 (arr_length next - 1)
            in case arr_get next nextIndex of
                 None \<Rightarrow> Inl TypeError
               | Some tab \<Rightarrow>
                   Inr (ctx\<lparr> inputList := next,
                             activeInputTab := name tab,
                             activeInputIndex := nextIndex \<rparr>)))"

definition updatePreviewOptions ::
  "'x PlaygroundContext \<Rightarrow> OptionsFormValues \<Rightarrow> 'x PlaygroundContext" where
  "updatePreviewOptions ctx opts = ctx\<lparr> previewOptions := opts \<rparr>"

definition resetPreviewOptions ::
  "('j, 'x) collaborators \<Rightarrow> 'x PlaygroundContext \<Rightarrow> 'x PlaygroundContext" where
  "resetPreviewOptions env ctx =
     ctx\<lparr> previewOptions := defaultOptionValues env, optionsFormKey := optionsFormKey ctx + 1 \<rparr>"

definition updateOptions ::
  "'x PlaygroundContext \<Rightarrow> OptionsFormValues \<Rightarrow> 'x PlaygroundContext" where
  "updateOptions ctx opts = ctx\<lparr> options := opts, previewOptions := opts \<rparr>"

definition updateEditingFile :: "'x PlaygroundContext \<Rightarrow> FileTabData \<Rightarrow> 'x PlaygroundContext" where
  "updateEditingFile ctx evtab =
     ctx\<lparr> inputList := updateAtIndex (inputList ctx) (index (fileForm ctx)) evtab \<rparr>"

definition createNewFile :: "'x PlaygroundContext \<Rightarrow> FileTabData \<Rightarrow> 'x PlaygroundContext" where
  "createNewFile ctx evtab = ctx\<lparr> inputList := append_elem (inputList ctx) evtab \<rparr>"

section \<open>The guards\<close>

text \<open>
  A guard reads the context as it is before the actions of its transition.
  An editor reference is an object: \<^verbatim>\<open>Boolean(a ?? b)\<close> holds when one of the
  two is not \<^verbatim>\<open>null\<close>.
\<close>

definition willInputAndOutputEditorBothBeReady :: "'x PlaygroundContext \<Rightarrow> bool" where
  "willInputAndOutputEditorBothBeReady ctx =
     (case inputEditor ctx of
        Some ed \<Rightarrow> True
      | None \<Rightarrow> (case outputEditor ctx of Some ed \<Rightarrow> True | None \<Rightarrow> False))"

definition isNextTabAnotherOpenApiDoc ::
  "'x PlaygroundContext \<Rightarrow> FileTabData \<Rightarrow> js_error + bool" where
  "isNextTabAnotherOpenApiDoc ctx evtab =
     (if name evtab = selectedOpenApiFileName ctx then Inr False
      else
        bindE (findIndex (\<lambda>tab. name tab = name evtab) (inputList ctx))
          (\<lambda>nextIndex.
             case arr_get (inputList ctx) nextIndex of
               None \<Rightarrow> Inl TypeError
             | Some tab \<Rightarrow> Inr (isValidDocumentName (name tab))))"

definition isNextTabAnotherTemplate ::
  "'x PlaygroundContext \<Rightarrow> FileTabData \<Rightarrow> js_error + bool" where
  "isNextTabAnotherTemplate ctx evtab =
     (if name evtab = selectedTemplateName ctx then Inr False
      else
        bindE (findIndex (\<lambda>tab. name tab = name evtab) (inputList ctx))
          (\<lambda>nextIndex.
             case arr_get (inputList ctx) nextIndex of
               None \<Rightarrow> Inl TypeError
             | Some tab \<Rightarrow> Inr (isValidTemplateName (name tab))))"

definition isNextTabAnotherPrettierConfig ::
  "'x PlaygroundContext \<Rightarrow> FileTabData \<Rightarrow> js_error + bool" where
  "isNextTabAnotherPrettierConfig ctx evtab =
     (if name evtab = selectedPrettierConfig ctx then Inr False
      else
        bindE (findIndex (\<lambda>tab. name tab = name evtab) (inputList ctx))
          (\<lambda>nextIndex.
             case arr_get (inputList ctx) nextIndex of
               None \<Rightarrow> Inl TypeError
             | Some tab \<Rightarrow> Inr (isValidPrettierConfig (name tab))))"

definition wasInputEmpty :: "'x PlaygroundContext \<Rightarrow> string \<Rightarrow> js_error + bool" where
  "wasInputEmpty ctx v =
     (case arr_get (inputList ctx) (activeInputIndex ctx) of
        None \<Rightarrow> Inl TypeError
      | Some tab \<Rightarrow> Inr (trim (content tab) = [] \<and> v \<noteq> []))"

section \<open>The machine\<close>

datatype machine_state =
    Loading
  | Playing
  | Editing_options
  | Editing_monaco_settings
  | Editing_file_tab
  | Creating_file_tab

definition to_state ::
  "machine_state \<Rightarrow> js_error + 'x PlaygroundContext
     \<Rightarrow> js_error + (machine_state \<times> 'x PlaygroundContext)" where
  "to_state st m = bindE m (\<lambda>ctx. Inr (st, ctx))"

text \<open>
  One event.  The machine has \<^verbatim>\<open>predictableActionArguments\<close>: the actions of
  a transition run in the order they are listed, each on the context the one
  before has left.  The guards of the candidate transitions are evaluated in
  order on the context before the event; the first that holds selects the
  transition.  An event with no transition in the current state (and the
  root event \<^verbatim>\<open>Resize\<close>, whose action only lays the output editor out)
  leaves the state as it is.  A guard or an action that raises aborts the
  event: \<open>Inl e\<close>, with \<open>e\<close> the exception of the guard or action (the
  interpreter reports the exception of a guard in an error of its own, with
  the same message).
\<close>

definition on_loading ::
  "('j, 'x) collaborators \<Rightarrow> 'x PlaygroundContext \<Rightarrow> PlaygroundEvent
     \<Rightarrow> js_error + (machine_state \<times> 'x PlaygroundContext)" where
  "on_loading env ctx ev =
     (case ev of
        Editor_Loaded ed nm mon \<Rightarrow>
          (if willInputAndOutputEditorBothBeReady ctx
           then to_state Playing (updateOutput env (assignEditorRef ctx ed nm mon) ev)
           else Inr (Loading, assignEditorRef ctx ed nm mon))
      | _ \<Rightarrow> Inr (Loading, ctx))"

text \<open>
  The first three transitions of \<^verbatim>\<open>Select input tab\<close> have the actions
  \<^verbatim>\<open>selectInputTab\<close>, the update \<open>upd\<close> of one role pointer, and
  \<^verbatim>\<open>updateOutput\<close>.
\<close>

definition select_and_update ::
  "('x PlaygroundContext \<Rightarrow> PlaygroundEvent \<Rightarrow> js_error + 'x PlaygroundContext)
     \<Rightarrow> ('j, 'x) collaborators \<Rightarrow> 'x PlaygroundContext \<Rightarrow> FileTabData
     \<Rightarrow> js_error + (machine_state \<times> 'x PlaygroundContext)" where
  "select_and_update upd env ctx t =
     to_state Playing
       (bindE (selectInputTab ctx t) (\<lambda>c1.
        bindE (upd c1 (Select_input_tab t)) (\<lambda>c2.
        updateOutput env c2 (Select_input_tab t))))"

definition on_select_input_tab ::
  "('j, 'x) collaborators \<Rightarrow> 'x PlaygroundContext \<Rightarrow> FileTabData
     \<Rightarrow> js_error + (machine_state \<times> 'x PlaygroundContext)" where
  "on_select_input_tab env ctx t =
     bindE (isNextTabAnotherOpenApiDoc ctx t) (\<lambda>g1.
       if g1 then select_and_update updateSelectedOpenApiFileName env ctx t
       else
         bindE (isNextTabAnotherTemplate ctx t) (\<lambda>g2.
           if g2 then select_and_update updateSelectedTemplateName env ctx t
           else
             bindE (isNextTabAnotherPrettierConfig ctx t) (\<lambda>g3.
               if g3 then select_and_update updateSelectedPrettierConfig env ctx t
               else to_state Playing (selectInputTab ctx t))))"

definition on_remove_file ::
  "('j, 'x) collaborators \<Rightarrow> 'x PlaygroundContext \<Rightarrow> FileTabData
     \<Rightarrow> js_error + (machine_state \<times> 'x PlaygroundContext)" where
  "on_remove_file env ctx t =
     to_state Playing
       (bindE (removeFile ctx t) (\<lambda>c1.
        bindE (updateSelectedOpenApiFileName c1 (Remove_file t)) (\<lambda>c2.
        bindE (updateSelectedTemplateName c2 (Remove_file t)) (\<lambda>c3.
        bindE (updateSelectedPrettierConfig c3 (Remove_file t)) (\<lambda>c4.
        updateOutput env c4 (Remove_file t))))))"

definition on_playing ::
  "('j, 'x) collaborators \<Rightarrow> 'x PlaygroundContext \<Rightarrow> PlaygroundEvent
     \<Rightarrow> js_error + (machine_state \<times> 'x PlaygroundContext)" where
  "on_playing env ctx ev =
     (case ev of
        Update_input v \<Rightarrow>
          bindE (wasInputEmpty ctx v) (\<lambda>g.
            if g
            then to_state Playing
                   (bindE (updateOutput env (updateInput ctx v) ev) updateSelectedDocOrTemplate)
            else to_state Playing (updateOutput env (updateInput ctx v) ev))
      | Select_input_tab t \<Rightarrow> on_select_input_tab env ctx t
      | Select_output_tab t \<Rightarrow> to_state Playing (selectOutputTab ctx t)
      | Select_preset_template p \<Rightarrow>
          to_state Playing (bindE (selectPresetTemplate ctx p) (\<lambda>c1. updateOutput env c1 ev))
      | Open_options \<Rightarrow> Inr (Editing_options, ctx)
      | Open_monaco_settings \<Rightarrow> Inr (Editing_monaco_settings, ctx)
      | Add_file \<Rightarrow> Inr (Creating_file_tab, initFileForm ctx)
      | Edit_file t \<Rightarrow> Inr (Editing_file_tab, assignFileToForm ctx t)
      | Remove_file t \<Rightarrow> on_remove_file env ctx t
      | Done_getPresetTemplates catalog \<Rightarrow> Inr (Playing, ctx\<lparr> presetTemplates := catalog \<rparr>)
      | _ \<Rightarrow> Inr (Playing, ctx))"

definition on_editing_options ::
  "('j, 'x) collaborators \<Rightarrow> 'x PlaygroundContext \<Rightarrow> PlaygroundEvent
     \<Rightarrow> js_error + (machine_state \<times> 'x PlaygroundContext)" where
  "on_editing_options env ctx ev =
     (case ev of
        Update_preview_options opts \<Rightarrow> Inr (Editing_options, updatePreviewOptions ctx opts)
      | Reset_preview_options \<Rightarrow> Inr (Editing_options, resetPreviewOptions env ctx)
      | Save_options opts \<Rightarrow> to_state Playing (updateOutput env (updateOptions ctx opts) ev)
      | Close_options \<Rightarrow> Inr (Playing, ctx)
      | _ \<Rightarrow> Inr (Editing_options, ctx))"

definition on_editing_monaco_settings ::
  "'x PlaygroundContext \<Rightarrow> PlaygroundEvent
     \<Rightarrow> js_error + (machine_state \<times> 'x PlaygroundContext)" where
  "on_editing_monaco_settings ctx ev =
     (case ev of
        Close_modal \<Rightarrow> Inr (Playing, ctx)
      | _ \<Rightarrow> Inr (Editing_monaco_settings, ctx))"

text \<open>
  The actions of \<^verbatim>\<open>Submit file modal\<close> after the first one, which the two
  file states share: \<open>c0\<close> is the context that \<^verbatim>\<open>updateEditingFile\<close>, or
  \<^verbatim>\<open>createNewFile\<close>, has left.  \<open>submit_actions\<close> are the five actions
  before \<^verbatim>\<open>updateOutput\<close>.
\<close>

definition submit_actions ::
  "'x PlaygroundContext \<Rightarrow> FileTabData \<Rightarrow> js_error + 'x PlaygroundContext" where
  "submit_actions c0 t =
     bindE (selectInputTab c0 t) (\<lambda>c1.
     bindE (updateInputEditorValue c1) (\<lambda>c2.
     bindE (updateSelectedOpenApiFileName c2 (Submit_file_modal t)) (\<lambda>c3.
     bindE (updateSelectedTemplateName c3 (Submit_file_modal t)) (\<lambda>c4.
     updateSelectedPrettierConfig c4 (Submit_file_modal t)))))"

definition submit_file_modal ::
  "('j, 'x) collaborators \<Rightarrow> 'x PlaygroundContext \<Rightarrow> FileTabData
     \<Rightarrow> js_error + (machine_state \<times> 'x PlaygroundContext)" where
  "submit_file_modal env c0 t =
     to_state Playing
       (bindE (submit_actions c0 t) (\<lambda>c5. updateOutput env c5 (Submit_file_modal t)))"

definition on_editing_file_tab ::
  "('j, 'x) collaborators \<Rightarrow> 'x PlaygroundContext \<Rightarrow> PlaygroundEvent
     \<Rightarrow> js_error + (machine_state \<times> 'x PlaygroundContext)" where
  "on_editing_file_tab env ctx ev =
     (case ev of
        Submit_file_modal t \<Rightarrow> submit_file_modal env (updateEditingFile ctx t) t
      | Close_modal \<Rightarrow> Inr (Playing, ctx)
      | _ \<Rightarrow> Inr (Editing_file_tab, ctx))"

definition on_creating_file_tab ::
  "('j, 'x) collaborators \<Rightarrow> 'x PlaygroundContext \<Rightarrow> PlaygroundEvent
     \<Rightarrow> js_error + (machine_state \<times> 'x PlaygroundContext)" where
  "on_creating_file_tab env ctx ev =
     (case ev of
        Submit_file_modal t \<Rightarrow> submit_file_modal env (createNewFile ctx t) t
      | Close_modal \<Rightarrow> Inr (Playing, ctx)
      | _ \<Rightarrow> Inr (Creating_file_tab, ctx))"

definition step ::
  "('j, 'x) collaborators \<Rightarrow> machine_state \<Rightarrow> 'x PlaygroundContext \<Rightarrow> PlaygroundEvent
     \<Rightarrow> js_error + (machine_state \<times> 'x PlaygroundContext)" where
  "step env st ctx ev =
     (case st of
        Loading \<Rightarrow> on_loading env ctx ev
      | Playing \<Rightarrow> on_playing env ctx ev
      | Editing_options \<Rightarrow> on_editing_options env ctx ev
      | Editing_monaco_settings \<Rightarrow> on_editing_monaco_settings ctx ev
      | Editing_file_tab \<Rightarrow> on_editing_file_tab env ctx ev
      | Creating_file_tab \<Rightarrow> on_creating_file_tab env ctx ev)"

text \<open>
  A run of the machine from a state.  An event that raises reaches no new
  state: the interpreter keeps the state it had, and takes the next event.
\<close>

fun run ::
  "('j, 'x) collaborators \<Rightarrow> machine_state \<times> 'x PlaygroundContext \<Rightarrow> PlaygroundEvent list
     \<Rightarrow> machine_state \<times> 'x PlaygroundContext" where
  "run env s [] = s"
| "run env s (ev # evs) =
     run env (case step env (fst s) (snd s) ev of Inl e \<Rightarrow> s | Inr s' \<Rightarrow> s') evs"

definition initial_state ::
  "('j, 'x) collaborators \<Rightarrow> machine_state \<times> 'x PlaygroundContext" where
  "initial_state env = (Loading, initial_context env)"

section \<open>What the properties are stated with\<close>

text \<open>The tabs among the elements of an array, and their names.\<close>

definition present_tabs :: "FileTabData js_array \<Rightarrow> FileTabData list" where
  "present_tabs xs = List.map_filter slot_val (elems xs)"

definition slot_names :: "FileTabData slot list \<Rightarrow> string list" where
  "slot_names xs = map name (List.map_filter slot_val xs)"

definition tab_names :: "FileTabData js_array \<Rightarrow> string list" where
  "tab_names xs = map name (present_tabs xs)"

text \<open>
  A role pointer resolves when it is empty, or names a tab of the input list
  and satisfies the naming predicate of its role.
\<close>

definition pointer_resolves :: "(string \<Rightarrow> bool) \<Rightarrow> FileTabData js_array \<Rightarrow> string \<Rightarrow> bool" where
  "pointer_resolves is_role xs ptr = (ptr = [] \<or> (ptr \<in> set (tab_names xs) \<and> is_role ptr))"

definition role_pointers_resolve :: "'x PlaygroundContext \<Rightarrow> bool" where
  "role_pointers_resolve ctx =
     (pointer_resolves isValidDocumentName (inputList ctx) (selectedOpenApiFileName ctx)
      \<and> pointer_resolves isValidTemplateName (inputList ctx) (selectedTemplateName ctx)
      \<and> pointer_resolves isValidPrettierConfig (inputList ctx) (selectedPrettierConfig ctx))"

text \<open>
  What holds of the pointers instead: each satisfies the naming predicate of
  its role, but for the document pointer, which may be empty, and for the
  template pointer, which may be the value of a preset of \<open>ps\<close>.
\<close>

definition role_pointers_classified :: "string list \<Rightarrow> 'x PlaygroundContext \<Rightarrow> bool" where
  "role_pointers_classified ps ctx =
     ((selectedOpenApiFileName ctx = [] \<or> isValidDocumentName (selectedOpenApiFileName ctx))
      \<and> (isValidTemplateName (selectedTemplateName ctx) \<or> selectedTemplateName ctx \<in> set ps)
      \<and> isValidPrettierConfig (selectedPrettierConfig ctx))"

text \<open>The values of the presets that the events of a run select.\<close>

fun selected_presets :: "PlaygroundEvent list \<Rightarrow> string list" where
  "selected_presets [] = []"
| "selected_presets (Select_preset_template p # evs) = pt_value p # selected_presets evs"
| "selected_presets (ev # evs) = selected_presets evs"

text \<open>
  The role pointer after \<^verbatim>\<open>Remove file\<close>: the name of the first tab of the
  list that satisfies the predicate, and the pointer as it was when there is
  none.
\<close>

definition first_of_role :: "(string \<Rightarrow> bool) \<Rightarrow> FileTabData js_array \<Rightarrow> string \<Rightarrow> string" where
  "first_of_role is_role xs ptr =
     (case List.find is_role (tab_names xs) of Some nm \<Rightarrow> nm | None \<Rightarrow> ptr)"

text \<open>
  The names of the grouped output: the index artifact, the common artifact
  when there are common schema names, then one artifact per group, in the
  order the groups were inserted.
\<close>

definition grouped_names :: "'x TemplateContext \<Rightarrow> string list" where
  "grouped_names tc =
     ''index.ts''
     # (case commonSchemaNames tc of Some (n # ns) \<Rightarrow> [''common.ts''] | _ \<Rightarrow> [])
     @ map (\<lambda>kv. fst kv @ ''.ts'') (endpointsGroups tc)"

text \<open>
  A group name that the object of outputs keeps apart and in place: it is
  none of \<^verbatim>\<open>index\<close>, \<^verbatim>\<open>common\<close> and \<^verbatim>\<open>__proto__\<close>, and no array index.
\<close>

definition plain_group_name :: "string \<Rightarrow> bool" where
  "plain_group_name g =
     (g \<noteq> ''index'' \<and> g \<noteq> ''common'' \<and> g \<noteq> ''__proto__'' \<and> \<not> is_array_index g)"

text \<open>What a run is observed by: the state, the editors, the pointers, the tabs.\<close>

definition editors_of ::
  "machine_state \<times> 'x PlaygroundContext \<Rightarrow> machine_state \<times> editor_ref option \<times> editor_ref option" where
  "editors_of s = (fst s, inputEditor (snd s), outputEditor (snd s))"

definition pointers_of :: "'x PlaygroundContext \<Rightarrow> string \<times> string \<times> string" where
  "pointers_of ctx =
     (selectedOpenApiFileName ctx, selectedTemplateName ctx, selectedPrettierConfig ctx)"

definition tab_indices :: "FileTabData js_array \<Rightarrow> int option list" where
  "tab_indices xs = map (\<lambda>s. map_option index (slot_val s)) (elems xs)"

subsection \<open>Sample collaborators\<close>

text \<open>
  Collaborators to evaluate the machine with.  The parsed document is its
  text; the template context has the groups and the common schema names given,
  and keeps the document in \<open>otherFields\<close>; a rendering is the template
  text, a bar, and what tells the four kinds of argument apart.  The YAML
  parser raises on the text \<^verbatim>\<open>paths: [unclosed\<close> (a flow sequence that is never
  closed); the JSON parser accepts what is written between braces; the
  formatter and \<open>capitalize\<close> return their input.
\<close>

definition sample_presets :: "PresetTemplate list" where
  "sample_presets =
     [ \<lparr> pt_value = ''default'', pt_template = ''template-default'', pt_options = None \<rparr>,
       \<lparr> pt_value = ''default-grouped'', pt_template = ''template-grouped'',
         pt_options = Some [''groupStrategy'' \<mapsto> OStr ''tag-file''] \<rparr> ]"

definition sample_render :: "string \<Rightarrow> string render_arg \<Rightarrow> js_error + string" where
  "sample_render t arg =
     Inr (case arg of
            IndexArg names \<Rightarrow> t @ ''|index''
          | CommonArg tc names \<Rightarrow> t @ ''|common''
          | GroupArg tc g opts \<Rightarrow> t @ ''|'' @ g
          | FullArg tc opts \<Rightarrow> t @ ''|'' @ otherFields tc)"

definition sample_env :: "string js_obj \<Rightarrow> string list option \<Rightarrow> (string, string) collaborators" where
  "sample_env groups common =
     \<lparr> safeJSONParse = (\<lambda>s. if startsWith s ''{'' \<and> endsWith s ''}'' then Some s else None),
       yaml_parse = (\<lambda>s. if s = ''paths: [unclosed'' then Inl YAMLParseError else Inr (Some s)),
       getZodClientTemplateContext =
         (\<lambda>doc opts. Inr \<lparr> endpointsGroups = groups, commonSchemaNames = common,
                            otherFields = doc \<rparr>),
       hbs_render = sample_render,
       maybePretty = (\<lambda>s pc. s),
       capitalize = (\<lambda>s. s),
       presetTemplateList = sample_presets,
       defaultOptionValues = [''groupStrategy'' \<mapsto> OStr ''none''],
       defaultInput = ''openapi: 3.0.0'',
       defaultTemplate = ''{{endpoints}}'',
       defaultPrettierConfig = ''{}'' \<rparr>"

definition sample_catalog :: "string \<rightharpoonup> string" where
  "sample_catalog =
     [''template-default'' \<mapsto> ''DEFAULT'',
      ''template-grouped'' \<mapsto> ''GROUPED'',
      ''template-grouped-index'' \<mapsto> ''INDEX'',
      ''template-grouped-common'' \<mapsto> ''COMMON'']"

section \<open>Basic facts\<close>

lemma bindE_eq_Inr: "bindE m f = Inr y \<longleftrightarrow> (\<exists>v. m = Inr v \<and> f v = Inr y)"
  by (cases m) simp_all

lemma to_state_eq_Inr: "to_state st m = Inr (st', c) \<longleftrightarrow> (st' = st \<and> m = Inr c)"
  by (cases m) (auto simp: to_state_def)

lemma trimStart_of_None: "strip_one ws s = None \<Longrightarrow> trimStart_of ws s = s"
  by (subst trimStart_of.simps) simp

lemma slot_names_simps:
  "slot_names [] = []"
  "slot_names (Hole # xs) = slot_names xs"
  "slot_names (Undef # xs) = slot_names xs"
  "slot_names (Elem x # xs) = name x # slot_names xs"
  by (simp_all add: slot_names_def List.map_filter_simps)

lemma tab_names_slots: "tab_names xs = slot_names (elems xs)"
  by (simp add: tab_names_def present_tabs_def slot_names_def)

lemma findIndex_from_first:
  "findIndex_from (\<lambda>tab. P (name tab)) xs i = Inr j \<Longrightarrow> 0 \<le> i \<Longrightarrow>
     (j = - 1 \<and> List.find P (slot_names xs) = None)
     \<or> (i \<le> j \<and> nat (j - i) < length xs
        \<and> (\<exists>t. xs ! nat (j - i) = Elem t \<and> P (name t) \<and> List.find P (slot_names xs) = Some (name t)))"
proof (induction xs arbitrary: i)
  case Nil
  then show ?case by (simp add: slot_names_simps)
next
  case (Cons a xs)
  show ?case
  proof (cases a)
    case Hole
    with Cons.prems show ?thesis by simp
  next
    case Undef
    with Cons.prems show ?thesis by simp
  next
    case (Elem x)
    show ?thesis
    proof (cases "P (name x)")
      case True
      with Elem Cons.prems show ?thesis by (simp add: slot_names_simps)
    next
      case False
      with Elem Cons.prems have r: "findIndex_from (\<lambda>tab. P (name tab)) xs (i + 1) = Inr j" by simp
      from Cons.IH[OF r] Cons.prems(2)
      consider "j = - 1" "List.find P (slot_names xs) = None"
        | t where "i + 1 \<le> j" "nat (j - (i + 1)) < length xs" "xs ! nat (j - (i + 1)) = Elem t"
            "P (name t)" "List.find P (slot_names xs) = Some (name t)"
        by auto
      then show ?thesis
      proof cases
        case 1
        with Elem False show ?thesis by (simp add: slot_names_simps)
      next
        case 2
        have "nat (j - i) = Suc (nat (j - (i + 1)))" using 2(1) by simp
        with 2 Elem False show ?thesis by (simp add: slot_names_simps)
      qed
    qed
  qed
qed

lemma findIndex_first:
  assumes "findIndex (\<lambda>tab. P (name tab)) xs = Inr j"
  shows "(j = - 1 \<and> List.find P (tab_names xs) = None)
     \<or> (0 \<le> j \<and> (\<exists>t. arr_get xs j = Some t \<and> P (name t)
                      \<and> List.find P (tab_names xs) = Some (name t)))"
  using findIndex_from_first[of P "elems xs" 0 j] assms
  by (auto simp: findIndex_def arr_get_def arr_length_def tab_names_slots)

lemma write_outputs_frame:
  assumes "write_outputs env ctx tc t pc = Inr ctx'"
  shows "inputList ctx' = inputList ctx \<and> pointers_of ctx' = pointers_of ctx
     \<and> inputEditor ctx' = inputEditor ctx \<and> outputEditor ctx' = outputEditor ctx
     \<and> options ctx' = options ctx \<and> previewOptions ctx' = previewOptions ctx
     \<and> presetTemplates ctx' = presetTemplates ctx"
  using assms
  by (auto simp: write_outputs_def bindE_eq_Inr pointers_of_def
      split: if_split_asm)

lemma bindE_InrE:
  assumes "bindE m f = Inr y"
  obtains v where "m = Inr v" "f v = Inr y"
  using assms by (cases m) simp_all

lemma generate_output_written:
  assumes "input \<noteq> []" "parse_document env input = Inr (Some doc)"
    "getZodClientTemplateContext env doc (options ctx) = Inr tc"
    "find_js (\<lambda>item. name item = selectedTemplateName ctx) (inputList ctx) = Inr templateTab"
    "templateString env ctx templateTab \<noteq> []"
    "find_js (\<lambda>tab. name tab = selectedPrettierConfig ctx) (inputList ctx) = Inr prettierTab"
  shows "generate_output env ctx input =
     write_outputs env ctx tc (templateString env ctx templateTab)
       (safeJSONParse env (case prettierTab of Some tab \<Rightarrow> content tab | None \<Rightarrow> ''{}''))"
  using assms by (simp add: generate_output_def)

lemma generate_output_cases:
  assumes "generate_output env ctx input = Inr ctx'"
  obtains (noop) "ctx' = ctx"
  | (written) doc tc templateTab prettierTab where
      "input \<noteq> []" "parse_document env input = Inr (Some doc)"
      "getZodClientTemplateContext env doc (options ctx) = Inr tc"
      "find_js (\<lambda>item. name item = selectedTemplateName ctx) (inputList ctx) = Inr templateTab"
      "templateString env ctx templateTab \<noteq> []"
      "find_js (\<lambda>tab. name tab = selectedPrettierConfig ctx) (inputList ctx) = Inr prettierTab"
      "write_outputs env ctx tc (templateString env ctx templateTab)
         (safeJSONParse env (case prettierTab of Some tab \<Rightarrow> content tab | None \<Rightarrow> ''{}''))
       = Inr ctx'"
proof (cases "input = []")
  case True
  with assms have "ctx' = ctx" by (simp add: generate_output_def)
  then show ?thesis by (rule noop)
next
  case ne: False
  with assms obtain parsed where p: "parse_document env input = Inr parsed"
    by (cases "parse_document env input") (simp_all add: generate_output_def)
  show ?thesis
  proof (cases parsed)
    case None
    with assms ne p have "ctx' = ctx" by (simp add: generate_output_def)
    then show ?thesis by (rule noop)
  next
    case (Some doc)
    with assms ne p obtain tc where
      tc: "getZodClientTemplateContext env doc (options ctx) = Inr tc"
      by (cases "getZodClientTemplateContext env doc (options ctx)")
         (simp_all add: generate_output_def)
    with assms ne p Some obtain templateTab where
      tt: "find_js (\<lambda>item. name item = selectedTemplateName ctx) (inputList ctx) = Inr templateTab"
      by (cases "find_js (\<lambda>item. name item = selectedTemplateName ctx) (inputList ctx)")
         (simp_all add: generate_output_def)
    show ?thesis
    proof (cases "templateString env ctx templateTab = []")
      case True
      with assms ne p Some tc tt have "ctx' = ctx" by (simp add: generate_output_def)
      then show ?thesis by (rule noop)
    next
      case False
      with assms ne p Some tc tt obtain prettierTab where
        pt: "find_js (\<lambda>tab. name tab = selectedPrettierConfig ctx) (inputList ctx) = Inr prettierTab"
        by (cases "find_js (\<lambda>tab. name tab = selectedPrettierConfig ctx) (inputList ctx)")
           (simp_all add: generate_output_def)
      from assms ne p Some tc tt False pt
      have "write_outputs env ctx tc (templateString env ctx templateTab)
         (safeJSONParse env (case prettierTab of Some tab \<Rightarrow> content tab | None \<Rightarrow> ''{}''))
       = Inr ctx'"
        by (simp add: generate_output_def)
      with ne p Some tc tt False pt show ?thesis by (intro written[of doc tc templateTab prettierTab]) simp_all
    qed
  qed
qed

lemma generate_output_frame:
  assumes "generate_output env ctx input = Inr ctx'"
  shows "inputList ctx' = inputList ctx \<and> pointers_of ctx' = pointers_of ctx
     \<and> inputEditor ctx' = inputEditor ctx \<and> outputEditor ctx' = outputEditor ctx
     \<and> options ctx' = options ctx \<and> previewOptions ctx' = previewOptions ctx
     \<and> presetTemplates ctx' = presetTemplates ctx"
  using assms by (cases rule: generate_output_cases) (simp_all add: write_outputs_frame)

lemma updateOutput_frame:
  assumes "updateOutput env ctx ev = Inr ctx'"
  shows "inputList ctx' = inputList ctx \<and> pointers_of ctx' = pointers_of ctx
     \<and> inputEditor ctx' = inputEditor ctx \<and> outputEditor ctx' = outputEditor ctx
     \<and> options ctx' = options ctx \<and> previewOptions ctx' = previewOptions ctx
     \<and> presetTemplates ctx' = presetTemplates ctx"
  using assms generate_output_frame unfolding updateOutput_def bindE_eq_Inr by blast

lemma removeFile_Inr:
  assumes "removeFile ctx t = Inr c1"
  shows "inputList c1 = removeAtIndex (inputList ctx) (index t) \<and> pointers_of c1 = pointers_of ctx"
  using assms
  by (auto simp: removeFile_def Let_def pointers_of_def split: if_split_asm option.split_asm)

lemma next_pointer_on_remove:
  assumes "bindE (findIndex (\<lambda>tab. P (name tab)) xs)
             (\<lambda>nextIndex. if nextIndex = - 1 then Inr ptr
                else (case arr_get xs nextIndex of None \<Rightarrow> Inl TypeError | Some tab \<Rightarrow> Inr (name tab)))
           = Inr v"
  shows "v = first_of_role P xs ptr"
proof -
  from assms obtain j where j: "findIndex (\<lambda>tab. P (name tab)) xs = Inr j"
    and r: "(if j = - 1 then Inr ptr
                else (case arr_get xs j of None \<Rightarrow> Inl TypeError | Some tab \<Rightarrow> Inr (name tab)))
           = Inr v"
    by (rule bindE_InrE)
  from findIndex_first[OF j] r show ?thesis
    by (auto simp: first_of_role_def split: if_split_asm)
qed

lemma updateSelectedOpenApiFileName_remove:
  assumes "updateSelectedOpenApiFileName c (Remove_file t) = Inr c'"
  shows "c' = c\<lparr> selectedOpenApiFileName :=
                 first_of_role isValidDocumentName (inputList c) (selectedOpenApiFileName c) \<rparr>"
proof -
  from assms obtain v where v: "next_selectedOpenApiFileName c (Remove_file t) = Inr v"
    and c': "c' = c\<lparr> selectedOpenApiFileName := v \<rparr>"
    unfolding updateSelectedOpenApiFileName_def by (auto elim: bindE_InrE)
  from v have "v = first_of_role isValidDocumentName (inputList c) (selectedOpenApiFileName c)"
    unfolding next_selectedOpenApiFileName_def by (simp add: next_pointer_on_remove)
  with c' show ?thesis by simp
qed

lemma updateSelectedTemplateName_remove:
  assumes "updateSelectedTemplateName c (Remove_file t) = Inr c'"
  shows "c' = c\<lparr> selectedTemplateName :=
                 first_of_role isValidTemplateName (inputList c) (selectedTemplateName c) \<rparr>"
proof -
  from assms obtain v where v: "next_selectedTemplateName c (Remove_file t) = Inr v"
    and c': "c' = c\<lparr> selectedTemplateName := v \<rparr>"
    unfolding updateSelectedTemplateName_def by (auto elim: bindE_InrE)
  from v have "v = first_of_role isValidTemplateName (inputList c) (selectedTemplateName c)"
    unfolding next_selectedTemplateName_def by (simp add: next_pointer_on_remove)
  with c' show ?thesis by simp
qed

lemma updateSelectedPrettierConfig_remove:
  assumes "updateSelectedPrettierConfig c (Remove_file t) = Inr c'"
  shows "c' = c\<lparr> selectedPrettierConfig :=
                 first_of_role isValidPrettierConfig (inputList c) (selectedPrettierConfig c) \<rparr>"
proof -
  from assms obtain v where v: "next_selectedPrettierConfig c (Remove_file t) = Inr v"
    and c': "c' = c\<lparr> selectedPrettierConfig := v \<rparr>"
    unfolding updateSelectedPrettierConfig_def by (auto elim: bindE_InrE)
  from v have "v = first_of_role isValidPrettierConfig (inputList c) (selectedPrettierConfig c)"
    unfolding next_selectedPrettierConfig_def by (simp add: next_pointer_on_remove)
  with c' show ?thesis by simp
qed

lemma obj_set_fresh:
  "k \<notin> fst ` set obj \<Longrightarrow> map fst (obj_set k v obj) = map fst obj @ [k]"
  by (induction obj) auto

lemma render_groups_keys:
  assumes "render_groups env t tc opts pc gs out = Inr res"
    and "distinct gs" and "''__proto__'' \<notin> set gs" and "set gs \<inter> fst ` set out = {}"
  shows "map fst res = map fst out @ gs"
  using assms
proof (induction gs arbitrary: out)
  case Nil
  then show ?case by simp
next
  case (Cons g gs)
  from Cons.prems(1) obtain groupOutput where
    r: "render_groups env t tc opts pc gs (obj_assign g (maybePretty env groupOutput pc) out) = Inr res"
    by (auto split: sum.split_asm)
  let ?out = "obj_assign g (maybePretty env groupOutput pc) out"
  have fresh: "g \<notin> fst ` set out" using Cons.prems(4) by auto
  have "g \<noteq> ''__proto__''" using Cons.prems(3) by auto
  with fresh have k: "map fst ?out = map fst out @ [g]"
    by (simp add: obj_assign_def obj_set_fresh)
  have "fst ` set ?out = set (map fst ?out)" by simp
  also have "\<dots> = insert g (fst ` set out)" unfolding k by simp
  finally have s: "fst ` set ?out = insert g (fst ` set out)" .
  have "set gs \<inter> fst ` set ?out = {}"
    unfolding s using Cons.prems(2,4) by auto
  from Cons.IH[OF r _ _ this] Cons.prems(2,3) k show ?case by simp
qed

lemma obj_entries_plain:
  assumes "list_all (\<lambda>k. \<not> is_array_index k) (map fst obj)"
  shows "obj_entries obj = obj"
proof -
  from assms have a: "\<forall>kv \<in> set obj. \<not> is_array_index (fst kv)"
    by (simp add: list_all_iff)
  then have "filter (\<lambda>kv. is_array_index (fst kv)) obj = []"
    by (simp add: filter_empty_conv)
  moreover from a have "filter (\<lambda>kv. \<not> is_array_index (fst kv)) obj = obj"
    by (simp add: filter_id_conv)
  ultimately show ?thesis by (simp add: obj_entries_def)
qed

lemma to_outputList_names:
  "map name (to_outputList i kvs) = map (\<lambda>kv. fst kv @ ''.ts'') kvs"
  by (induction i kvs rule: to_outputList.induct) simp_all

lemma to_outputList_length: "length (to_outputList i kvs) = length kvs"
  by (induction i kvs rule: to_outputList.induct) simp_all

lemma to_outputList_indices:
  "map index (to_outputList i kvs) = map (\<lambda>n. i + int n) [0..<length kvs]"
proof (induction i kvs rule: to_outputList.induct)
  case (1 i)
  then show ?case by simp
next
  case (2 i k v rest)
  have "[0..<length ((k, v) # rest)] = 0 # map Suc [0..<length rest]"
    by (simp add: upt_conv_Cons map_Suc_upt del: upt_Suc)
  with 2 show ?case by (simp add: comp_def algebra_simps)
qed

lemma plain_not_array_index:
  "list_all plain_group_name gs \<Longrightarrow> list_all (\<lambda>k. \<not> is_array_index k) gs"
  by (simp add: list_all_iff plain_group_name_def)

lemma grouped_outputs_keys:
  assumes g: "grouped_outputs env ctx t tc pc = Inr obj"
    and d: "distinct (map fst (endpointsGroups tc))"
    and p: "list_all plain_group_name (map fst (endpointsGroups tc))"
  shows "map (\<lambda>kv. fst kv @ ''.ts'') obj = grouped_names tc
     \<and> list_all (\<lambda>k. \<not> is_array_index k) (map fst obj)"
proof -
  let ?gs = "map fst (endpointsGroups tc)"
  have keys: "obj_keys (endpointsGroups tc) = ?gs"
    using plain_not_array_index[OF p] by (simp add: obj_keys_def obj_entries_plain)
  have np: "''__proto__'' \<notin> set ?gs" "''index'' \<notin> set ?gs" "''common'' \<notin> set ?gs"
    using p by (auto simp: list_all_iff plain_group_name_def)
  have ni: "\<not> is_array_index ''index''" "\<not> is_array_index ''common''"
    by (simp_all add: is_array_index_def is_digit_def)
  from g obtain indexOutput commonTemplate out2 where
    o2: "common_output env tc commonTemplate pc (obj_set ''index'' (maybePretty env indexOutput pc) [])
           = Inr out2"
    and r: "render_groups env t tc (options ctx) pc ?gs out2 = Inr obj"
    unfolding grouped_outputs_def keys by (auto simp: bindE_eq_Inr)
  have k2: "map fst out2 = ''index'' # (case commonSchemaNames tc of Some (n # ns) \<Rightarrow> [''common''] | _ \<Rightarrow> [])"
    using o2 by (auto simp: common_output_def bindE_eq_Inr split: option.split_asm list.split_asm)
  have "fst ` set out2 = set (map fst out2)" by simp
  also have "\<dots> \<subseteq> {''index'', ''common''}"
    unfolding k2 by (auto split: option.split list.split)
  finally have "fst ` set out2 \<subseteq> {''index'', ''common''}" .
  moreover have "set ?gs \<inter> {''index'', ''common''} = {}" using np by simp
  ultimately have "set ?gs \<inter> fst ` set out2 = {}" by blast
  from render_groups_keys[OF r d np(1) this]
  have ko: "map fst obj = map fst out2 @ ?gs" .
  have "map (\<lambda>kv. fst kv @ ''.ts'') obj = map (\<lambda>k. k @ ''.ts'') (map fst obj)"
    by (simp add: comp_def)
  also have "\<dots> = grouped_names tc"
    unfolding ko k2 by (simp add: grouped_names_def comp_def split: option.split list.split)
  finally have a: "map (\<lambda>kv. fst kv @ ''.ts'') obj = grouped_names tc" .
  have b: "list_all (\<lambda>k. \<not> is_array_index k) (map fst obj)"
    unfolding ko k2 using plain_not_array_index[OF p] ni
    by (simp split: option.split list.split)
  from a b show ?thesis ..
qed

lemma classified_pointers_of:
  "pointers_of c' = pointers_of c \<Longrightarrow>
     role_pointers_classified ps c' = role_pointers_classified ps c"
  by (simp add: pointers_of_def role_pointers_classified_def)

lemma classified_mono:
  "role_pointers_classified ps c \<Longrightarrow> set ps \<subseteq> set ps' \<Longrightarrow> role_pointers_classified ps' c"
  by (auto simp: role_pointers_classified_def)

lemma find_from_sat: "find_from p xs = Inr (Some t) \<Longrightarrow> p t"
  by (induction p xs rule: find_from.induct) (auto split: if_split_asm)

lemma find_js_sat: "find_js p xs = Inr (Some t) \<Longrightarrow> p t"
  unfolding find_js_def by (rule find_from_sat)

lemma first_of_role_cases:
  "first_of_role P xs ptr = ptr \<or> P (first_of_role P xs ptr)"
  by (auto simp: first_of_role_def find_Some_iff split: option.split)

lemma pointer_on_tab_event:
  fixes xs :: "FileTabData js_array"
  assumes "bindE (findIndex (\<lambda>tab. name tab = nm) xs)
             (\<lambda>nextIndex. if nextIndex = - 1 then Inr ptr
                else (case arr_get xs nextIndex of
                        None \<Rightarrow> Inl TypeError
                      | Some tab \<Rightarrow> if P (name tab) then Inr nm else F))
           = Inr v"
  shows "v = ptr \<or> P v \<or> F = Inr v"
proof -
  from assms obtain j where j: "findIndex (\<lambda>tab. name tab = nm) xs = Inr j"
    and r: "(if j = - 1 then Inr ptr
                else (case arr_get xs j of
                        None \<Rightarrow> Inl TypeError
                      | Some tab \<Rightarrow> if P (name tab) then Inr nm else F))
           = Inr v"
    by (rule bindE_InrE)
  from findIndex_first[of "\<lambda>n. n = nm" xs j] j
  have "j = - 1 \<or> (j \<noteq> - 1 \<and> (\<exists>t. arr_get xs j = Some t \<and> name t = nm))" by auto
  with r show ?thesis by (auto split: if_split_asm)
qed

lemma not_remove_case:
  assumes "\<And>t. ev \<noteq> Remove_file t"
  shows "(case ev of Remove_file t \<Rightarrow> A t | _ \<Rightarrow> B) = B"
  using assms by (cases ev) auto

lemma next_selectedOpenApiFileName_ok:
  assumes "next_selectedOpenApiFileName ctx ev = Inr v"
  shows "v = selectedOpenApiFileName ctx \<or> v = [] \<or> isValidDocumentName v"
proof (cases "\<exists>t. ev = Remove_file t")
  case True
  then obtain t where "ev = Remove_file t" ..
  with assms have "v = first_of_role isValidDocumentName (inputList ctx) (selectedOpenApiFileName ctx)"
    by (simp add: next_selectedOpenApiFileName_def next_pointer_on_remove)
  with first_of_role_cases[of isValidDocumentName "inputList ctx" "selectedOpenApiFileName ctx"]
  show ?thesis by auto
next
  case False
  then have ne: "\<And>t. ev \<noteq> Remove_file t" by simp
  show ?thesis
  proof (cases "event_tab ev")
    case None
    with assms ne show ?thesis
      by (simp add: next_selectedOpenApiFileName_def not_remove_case)
  next
    case (Some evtab)
    show ?thesis
    proof (cases "content evtab = []")
      case True
      with assms ne Some show ?thesis
        by (simp add: next_selectedOpenApiFileName_def not_remove_case)
    next
      case False
      let ?F = "bindE (find_js (\<lambda>tab. isValidDocumentName (name tab)) (inputList ctx))
                  (\<lambda>found. Inr (case found of Some tab \<Rightarrow> name tab | None \<Rightarrow> []))"
      from assms ne Some False
      have "bindE (findIndex (\<lambda>tab. name tab = name evtab) (inputList ctx))
             (\<lambda>nextIndex. if nextIndex = - 1 then Inr (selectedOpenApiFileName ctx)
                else (case arr_get (inputList ctx) nextIndex of
                        None \<Rightarrow> Inl TypeError
                      | Some tab \<Rightarrow> if isValidDocumentName (name tab) then Inr (name evtab) else ?F))
           = Inr v"
        by (simp add: next_selectedOpenApiFileName_def not_remove_case)
      from pointer_on_tab_event[OF this]
      consider "v = selectedOpenApiFileName ctx" | "isValidDocumentName v" | "?F = Inr v" by blast
      then show ?thesis
      proof cases
        case 3
        then obtain found where f: "find_js (\<lambda>tab. isValidDocumentName (name tab)) (inputList ctx) = Inr found"
          and v: "v = (case found of Some tab \<Rightarrow> name tab | None \<Rightarrow> [])"
          by (auto elim: bindE_InrE)
        show ?thesis
        proof (cases found)
          case None
          with v show ?thesis by simp
        next
          case (Some tab)
          with f find_js_sat[of "\<lambda>tab. isValidDocumentName (name tab)" "inputList ctx" tab] v
          show ?thesis by simp
        qed
      qed simp_all
    qed
  qed
qed

lemma next_selectedTemplateName_ok:
  assumes "next_selectedTemplateName ctx ev = Inr v"
  shows "v = selectedTemplateName ctx \<or> isValidTemplateName v"
proof (cases "\<exists>t. ev = Remove_file t")
  case True
  then obtain t where "ev = Remove_file t" ..
  with assms have "v = first_of_role isValidTemplateName (inputList ctx) (selectedTemplateName ctx)"
    by (simp add: next_selectedTemplateName_def next_pointer_on_remove)
  with first_of_role_cases[of isValidTemplateName "inputList ctx" "selectedTemplateName ctx"]
  show ?thesis by auto
next
  case False
  then have ne: "\<And>t. ev \<noteq> Remove_file t" by simp
  show ?thesis
  proof (cases "event_tab ev")
    case None
    with assms ne show ?thesis
      by (simp add: next_selectedTemplateName_def not_remove_case)
  next
    case (Some evtab)
    show ?thesis
    proof (cases "content evtab = []")
      case True
      with assms ne Some show ?thesis
        by (simp add: next_selectedTemplateName_def not_remove_case)
    next
      case False
      from assms ne Some False
      have "bindE (findIndex (\<lambda>tab. name tab = name evtab) (inputList ctx))
             (\<lambda>nextIndex. if nextIndex = - 1 then Inr (selectedTemplateName ctx)
                else (case arr_get (inputList ctx) nextIndex of
                        None \<Rightarrow> Inl TypeError
                      | Some tab \<Rightarrow> if isValidTemplateName (name tab) then Inr (name evtab)
                                    else Inr (selectedTemplateName ctx)))
           = Inr v"
        by (simp add: next_selectedTemplateName_def not_remove_case)
      from pointer_on_tab_event[OF this] show ?thesis by auto
    qed
  qed
qed

lemma next_selectedPrettierConfig_ok:
  assumes "next_selectedPrettierConfig ctx ev = Inr v"
  shows "v = selectedPrettierConfig ctx \<or> isValidPrettierConfig v"
proof (cases "\<exists>t. ev = Remove_file t")
  case True
  then obtain t where "ev = Remove_file t" ..
  with assms have "v = first_of_role isValidPrettierConfig (inputList ctx) (selectedPrettierConfig ctx)"
    by (simp add: next_selectedPrettierConfig_def next_pointer_on_remove)
  with first_of_role_cases[of isValidPrettierConfig "inputList ctx" "selectedPrettierConfig ctx"]
  show ?thesis by auto
next
  case False
  then have ne: "\<And>t. ev \<noteq> Remove_file t" by simp
  show ?thesis
  proof (cases "event_tab ev")
    case None
    with assms ne show ?thesis
      by (simp add: next_selectedPrettierConfig_def not_remove_case)
  next
    case (Some evtab)
    show ?thesis
    proof (cases "content evtab = []")
      case True
      with assms ne Some show ?thesis
        by (simp add: next_selectedPrettierConfig_def not_remove_case)
    next
      case False
      from assms ne Some False
      have "bindE (findIndex (\<lambda>tab. name tab = name evtab) (inputList ctx))
             (\<lambda>nextIndex. if nextIndex = - 1 then Inr (selectedPrettierConfig ctx)
                else (case arr_get (inputList ctx) nextIndex of
                        None \<Rightarrow> Inl TypeError
                      | Some tab \<Rightarrow> if isValidPrettierConfig (name tab) then Inr (name evtab)
                                    else Inr (selectedPrettierConfig ctx)))
           = Inr v"
        by (simp add: next_selectedPrettierConfig_def not_remove_case)
      from pointer_on_tab_event[OF this] show ?thesis by auto
    qed
  qed
qed

lemma updateSelectedOpenApiFileName_classified:
  assumes "updateSelectedOpenApiFileName c ev = Inr c'" and "role_pointers_classified ps c"
  shows "role_pointers_classified ps c'"
proof -
  from assms(1) obtain v where v: "next_selectedOpenApiFileName c ev = Inr v"
    and c': "c' = c\<lparr> selectedOpenApiFileName := v \<rparr>"
    unfolding updateSelectedOpenApiFileName_def by (auto elim: bindE_InrE)
  from next_selectedOpenApiFileName_ok[OF v] assms(2) c' show ?thesis
    by (auto simp: role_pointers_classified_def)
qed

lemma updateSelectedTemplateName_classified:
  assumes "updateSelectedTemplateName c ev = Inr c'" and "role_pointers_classified ps c"
  shows "role_pointers_classified ps c'"
proof -
  from assms(1) obtain v where v: "next_selectedTemplateName c ev = Inr v"
    and c': "c' = c\<lparr> selectedTemplateName := v \<rparr>"
    unfolding updateSelectedTemplateName_def by (auto elim: bindE_InrE)
  from next_selectedTemplateName_ok[OF v] assms(2) c' show ?thesis
    by (auto simp: role_pointers_classified_def)
qed

lemma updateSelectedPrettierConfig_classified:
  assumes "updateSelectedPrettierConfig c ev = Inr c'" and "role_pointers_classified ps c"
  shows "role_pointers_classified ps c'"
proof -
  from assms(1) obtain v where v: "next_selectedPrettierConfig c ev = Inr v"
    and c': "c' = c\<lparr> selectedPrettierConfig := v \<rparr>"
    unfolding updateSelectedPrettierConfig_def by (auto elim: bindE_InrE)
  from next_selectedPrettierConfig_ok[OF v] assms(2) c' show ?thesis
    by (auto simp: role_pointers_classified_def)
qed

lemma updateOutput_classified:
  assumes "updateOutput env c ev = Inr c'" and "role_pointers_classified ps c"
  shows "role_pointers_classified ps c'"
  using updateOutput_frame[OF assms(1)] assms(2) classified_pointers_of[of c' c ps] by simp

lemma selectInputTab_classified:
  assumes "selectInputTab c t = Inr c'" and "role_pointers_classified ps c"
  shows "role_pointers_classified ps c'"
  using assms by (auto simp: selectInputTab_def role_pointers_classified_def elim!: bindE_InrE)

lemma removeFile_classified:
  assumes "removeFile c t = Inr c'" and "role_pointers_classified ps c"
  shows "role_pointers_classified ps c'"
  using removeFile_Inr[OF assms(1)] assms(2) classified_pointers_of[of c' c ps] by simp

lemma updateInputEditorValue_Inr: "updateInputEditorValue c = Inr c' \<Longrightarrow> c' = c"
  by (auto simp: updateInputEditorValue_def split: option.split_asm)

lemma updateSelectedDocOrTemplate_classified:
  assumes "updateSelectedDocOrTemplate c = Inr c'" and "role_pointers_classified ps c"
  shows "role_pointers_classified ps c'"
  using assms
  by (auto simp: updateSelectedDocOrTemplate_def role_pointers_classified_def split: option.split_asm)

lemma selectPresetTemplate_classified:
  assumes "selectPresetTemplate c p = Inr c'" and "role_pointers_classified ps c"
  shows "role_pointers_classified (ps @ [pt_value p]) c'"
  using assms
  by (auto simp: selectPresetTemplate_def role_pointers_classified_def elim!: bindE_InrE)

lemma updateInput_pointers: "pointers_of (updateInput c v) = pointers_of c"
  by (simp add: updateInput_def pointers_of_def split: option.split)

lemma submit_file_modal_classified:
  assumes "submit_file_modal env c0 t = Inr (st', ctx')" and "role_pointers_classified ps c0"
  shows "role_pointers_classified ps ctx'"
proof -
  from assms(1) obtain c1 c2 c3 c4 c5 where
    c1: "selectInputTab c0 t = Inr c1"
    and c2: "updateInputEditorValue c1 = Inr c2"
    and c3: "updateSelectedOpenApiFileName c2 (Submit_file_modal t) = Inr c3"
    and c4: "updateSelectedTemplateName c3 (Submit_file_modal t) = Inr c4"
    and c5: "updateSelectedPrettierConfig c4 (Submit_file_modal t) = Inr c5"
    and c6: "updateOutput env c5 (Submit_file_modal t) = Inr ctx'"
    unfolding submit_file_modal_def submit_actions_def to_state_eq_Inr
    by (auto elim!: bindE_InrE)
  from selectInputTab_classified[OF c1 assms(2)] updateInputEditorValue_Inr[OF c2]
  have "role_pointers_classified ps c2" by simp
  from updateSelectedOpenApiFileName_classified[OF c3 this]
  have "role_pointers_classified ps c3" .
  from updateSelectedTemplateName_classified[OF c4 this]
  have "role_pointers_classified ps c4" .
  from updateSelectedPrettierConfig_classified[OF c5 this]
  have "role_pointers_classified ps c5" .
  from updateOutput_classified[OF c6 this] show ?thesis .
qed

lemma on_remove_file_classified:
  assumes "on_remove_file env ctx t = Inr (st', ctx')" and "role_pointers_classified ps ctx"
  shows "role_pointers_classified ps ctx'"
proof -
  from assms(1) obtain c1 c2 c3 c4 where
    c1: "removeFile ctx t = Inr c1"
    and c2: "updateSelectedOpenApiFileName c1 (Remove_file t) = Inr c2"
    and c3: "updateSelectedTemplateName c2 (Remove_file t) = Inr c3"
    and c4: "updateSelectedPrettierConfig c3 (Remove_file t) = Inr c4"
    and c5: "updateOutput env c4 (Remove_file t) = Inr ctx'"
    unfolding on_remove_file_def to_state_eq_Inr by (auto elim!: bindE_InrE)
  from removeFile_classified[OF c1 assms(2)]
  have "role_pointers_classified ps c1" .
  from updateSelectedOpenApiFileName_classified[OF c2 this]
  have "role_pointers_classified ps c2" .
  from updateSelectedTemplateName_classified[OF c3 this]
  have "role_pointers_classified ps c3" .
  from updateSelectedPrettierConfig_classified[OF c4 this]
  have "role_pointers_classified ps c4" .
  from updateOutput_classified[OF c5 this] show ?thesis .
qed

lemma select_and_update_classified:
  assumes "select_and_update upd env ctx t = Inr (st', ctx')" and "role_pointers_classified ps ctx"
    and "\<And>c c'. upd c (Select_input_tab t) = Inr c' \<Longrightarrow> role_pointers_classified ps c
           \<Longrightarrow> role_pointers_classified ps c'"
  shows "role_pointers_classified ps ctx'"
proof -
  from assms(1) obtain c1 c2 where c1: "selectInputTab ctx t = Inr c1"
    and c2: "upd c1 (Select_input_tab t) = Inr c2"
    and c3: "updateOutput env c2 (Select_input_tab t) = Inr ctx'"
    unfolding select_and_update_def to_state_eq_Inr by (auto elim!: bindE_InrE)
  from selectInputTab_classified[OF c1 assms(2)]
  have "role_pointers_classified ps c1" .
  from assms(3)[OF c2 this]
  have "role_pointers_classified ps c2" .
  from updateOutput_classified[OF c3 this] show ?thesis .
qed

lemma on_select_input_tab_classified:
  assumes "on_select_input_tab env ctx t = Inr (st', ctx')" and "role_pointers_classified ps ctx"
  shows "role_pointers_classified ps ctx'"
proof -
  from assms(1) consider
    "select_and_update updateSelectedOpenApiFileName env ctx t = Inr (st', ctx')"
  | "select_and_update updateSelectedTemplateName env ctx t = Inr (st', ctx')"
  | "select_and_update updateSelectedPrettierConfig env ctx t = Inr (st', ctx')"
  | "selectInputTab ctx t = Inr ctx'"
    unfolding on_select_input_tab_def
    by (auto simp: to_state_eq_Inr bindE_eq_Inr split: if_split_asm)
  then show ?thesis
  proof cases
    case 1
    from select_and_update_classified[OF 1 assms(2) updateSelectedOpenApiFileName_classified]
    show ?thesis .
  next
    case 2
    from select_and_update_classified[OF 2 assms(2) updateSelectedTemplateName_classified]
    show ?thesis .
  next
    case 3
    from select_and_update_classified[OF 3 assms(2) updateSelectedPrettierConfig_classified]
    show ?thesis .
  next
    case 4
    from selectInputTab_classified[OF 4 assms(2)] show ?thesis .
  qed
qed


lemma assignEditorRef_pointers: "pointers_of (assignEditorRef c ed nm mon) = pointers_of c"
  by (cases nm) (simp_all add: pointers_of_def)

lemma classified_append: "role_pointers_classified ps c \<Longrightarrow> role_pointers_classified (ps @ qs) c"
  by (rule classified_mono) auto

lemma on_loading_classified:
  assumes "on_loading env ctx ev = Inr (st', ctx')" and "role_pointers_classified ps ctx"
  shows "role_pointers_classified ps ctx'"
proof (cases ev)
  case (Editor_Loaded ed nm mon)
  have a: "role_pointers_classified ps (assignEditorRef ctx ed nm mon)"
    using assms(2) classified_pointers_of[OF assignEditorRef_pointers, of ps ctx ed nm mon] by simp
  show ?thesis
  proof (cases "willInputAndOutputEditorBothBeReady ctx")
    case True
    with assms(1) Editor_Loaded
    have "updateOutput env (assignEditorRef ctx ed nm mon) ev = Inr ctx'"
      by (simp add: on_loading_def to_state_eq_Inr)
    from updateOutput_classified[OF this a] show ?thesis .
  next
    case False
    with assms(1) Editor_Loaded have "ctx' = assignEditorRef ctx ed nm mon"
      by (simp add: on_loading_def)
    with a show ?thesis by simp
  qed
qed (use assms in \<open>simp_all add: on_loading_def\<close>)

lemma on_playing_classified:
  assumes "on_playing env ctx ev = Inr (st', ctx')" and "role_pointers_classified ps ctx"
  shows "role_pointers_classified (ps @ selected_presets [ev]) ctx'"
proof (cases ev)
  case (Update_input v)
  have a: "role_pointers_classified ps (updateInput ctx v)"
    using assms(2) classified_pointers_of[OF updateInput_pointers, of ps ctx v] by simp
  from assms(1) Update_input consider
    c where "updateOutput env (updateInput ctx v) ev = Inr c" "updateSelectedDocOrTemplate c = Inr ctx'"
    | "updateOutput env (updateInput ctx v) ev = Inr ctx'"
    by (auto simp: on_playing_def to_state_eq_Inr bindE_eq_Inr split: if_split_asm)
  then have "role_pointers_classified ps ctx'"
  proof cases
    case 1
    from updateOutput_classified[OF 1(1) a]
    have "role_pointers_classified ps c" .
    from updateSelectedDocOrTemplate_classified[OF 1(2) this] show ?thesis .
  next
    case 2
    from updateOutput_classified[OF 2 a] show ?thesis .
  qed
  with Update_input show ?thesis by simp
next
  case (Select_input_tab t)
  with assms(1) have "on_select_input_tab env ctx t = Inr (st', ctx')"
    by (simp add: on_playing_def)
  from on_select_input_tab_classified[OF this assms(2)] Select_input_tab
  show ?thesis by simp
next
  case (Select_output_tab t)
  with assms show ?thesis
    by (auto simp: on_playing_def to_state_eq_Inr selectOutputTab_def bindE_eq_Inr
        role_pointers_classified_def)
next
  case (Select_preset_template p)
  with assms(1) obtain c1 where c1: "selectPresetTemplate ctx p = Inr c1"
    and c2: "updateOutput env c1 ev = Inr ctx'"
    by (auto simp: on_playing_def to_state_eq_Inr bindE_eq_Inr)
  from selectPresetTemplate_classified[OF c1 assms(2)]
  have "role_pointers_classified (ps @ [pt_value p]) c1" .
  from updateOutput_classified[OF c2 this] Select_preset_template show ?thesis by simp
next
  case (Remove_file t)
  with assms(1) have "on_remove_file env ctx t = Inr (st', ctx')"
    by (simp add: on_playing_def)
  from on_remove_file_classified[OF this assms(2)] Remove_file show ?thesis by simp
qed (use assms in \<open>auto simp: on_playing_def role_pointers_classified_def initFileForm_def
      assignFileToForm_def\<close>)

lemma on_editing_options_classified:
  assumes "on_editing_options env ctx ev = Inr (st', ctx')" and "role_pointers_classified ps ctx"
  shows "role_pointers_classified ps ctx'"
proof (cases ev)
  case (Save_options opts)
  have a: "role_pointers_classified ps (updateOptions ctx opts)"
    using assms(2) by (simp add: role_pointers_classified_def updateOptions_def)
  from assms(1) Save_options have "updateOutput env (updateOptions ctx opts) ev = Inr ctx'"
    by (simp add: on_editing_options_def to_state_eq_Inr)
  from updateOutput_classified[OF this a] show ?thesis .
qed (use assms in \<open>auto simp: on_editing_options_def role_pointers_classified_def
      updatePreviewOptions_def resetPreviewOptions_def\<close>)

lemma on_editing_file_tab_classified:
  assumes "on_editing_file_tab env ctx ev = Inr (st', ctx')" and "role_pointers_classified ps ctx"
  shows "role_pointers_classified ps ctx'"
proof (cases ev)
  case (Submit_file_modal t)
  have a: "role_pointers_classified ps (updateEditingFile ctx t)"
    using assms(2) by (simp add: role_pointers_classified_def updateEditingFile_def)
  from assms(1) Submit_file_modal
  have "submit_file_modal env (updateEditingFile ctx t) t = Inr (st', ctx')"
    by (simp add: on_editing_file_tab_def)
  from submit_file_modal_classified[OF this a] show ?thesis .
qed (use assms in \<open>auto simp: on_editing_file_tab_def\<close>)

lemma on_creating_file_tab_classified:
  assumes "on_creating_file_tab env ctx ev = Inr (st', ctx')" and "role_pointers_classified ps ctx"
  shows "role_pointers_classified ps ctx'"
proof (cases ev)
  case (Submit_file_modal t)
  have a: "role_pointers_classified ps (createNewFile ctx t)"
    using assms(2) by (simp add: role_pointers_classified_def createNewFile_def)
  from assms(1) Submit_file_modal
  have "submit_file_modal env (createNewFile ctx t) t = Inr (st', ctx')"
    by (simp add: on_creating_file_tab_def)
  from submit_file_modal_classified[OF this a] show ?thesis .
qed (use assms in \<open>auto simp: on_creating_file_tab_def\<close>)

lemma on_editing_monaco_settings_classified:
  assumes "on_editing_monaco_settings ctx ev = Inr (st', ctx')" and "role_pointers_classified ps ctx"
  shows "role_pointers_classified ps ctx'"
  using assms by (cases ev) (auto simp: on_editing_monaco_settings_def)

lemma step_classified:
  assumes "step env st ctx ev = Inr (st', ctx')" and "role_pointers_classified ps ctx"
  shows "role_pointers_classified (ps @ selected_presets [ev]) ctx'"
proof (cases st)
  case Playing
  with assms(1) have "on_playing env ctx ev = Inr (st', ctx')" by (simp add: step_def)
  from on_playing_classified[OF this assms(2)] show ?thesis .
next
  case Loading
  with assms(1) have "on_loading env ctx ev = Inr (st', ctx')" by (simp add: step_def)
  from on_loading_classified[OF this assms(2)] show ?thesis by (rule classified_append)
next
  case Editing_options
  with assms(1) have "on_editing_options env ctx ev = Inr (st', ctx')" by (simp add: step_def)
  from on_editing_options_classified[OF this assms(2)] show ?thesis by (rule classified_append)
next
  case Editing_monaco_settings
  with assms(1) have "on_editing_monaco_settings ctx ev = Inr (st', ctx')" by (simp add: step_def)
  from on_editing_monaco_settings_classified[OF this assms(2)] show ?thesis
    by (rule classified_append)
next
  case Editing_file_tab
  with assms(1) have "on_editing_file_tab env ctx ev = Inr (st', ctx')" by (simp add: step_def)
  from on_editing_file_tab_classified[OF this assms(2)] show ?thesis by (rule classified_append)
next
  case Creating_file_tab
  with assms(1) have "on_creating_file_tab env ctx ev = Inr (st', ctx')" by (simp add: step_def)
  from on_creating_file_tab_classified[OF this assms(2)] show ?thesis by (rule classified_append)
qed

lemma selected_presets_Cons:
  "selected_presets (ev # evs) = selected_presets [ev] @ selected_presets evs"
  by (cases ev) simp_all

lemma run_classified:
  "role_pointers_classified ps (snd s) \<Longrightarrow>
     role_pointers_classified (ps @ selected_presets evs) (snd (run env s evs))"
proof (induction evs arbitrary: s ps)
  case Nil
  then show ?case by simp
next
  case (Cons ev evs)
  let ?s1 = "case step env (fst s) (snd s) ev of Inl e \<Rightarrow> s | Inr s' \<Rightarrow> s'"
  have "role_pointers_classified (ps @ selected_presets [ev]) (snd ?s1)"
  proof (cases "step env (fst s) (snd s) ev")
    case (Inl e)
    with Cons.prems show ?thesis by (simp add: classified_append)
  next
    case (Inr s')
    then have "step env (fst s) (snd s) ev = Inr (fst s', snd s')" by simp
    from step_classified[OF this Cons.prems] Inr show ?thesis by simp
  qed
  from Cons.IH[OF this] show ?case
    by (simp add: selected_presets_Cons[of ev evs])
qed

lemma initial_classified: "role_pointers_classified [] (initial_context env)"
  by (simp add: role_pointers_classified_def initial_context_def isValidDocumentName_def
      isValidTemplateName_def isValidPrettierConfig_def startsWith_def endsWith_def)

lemma grouped_outputs_cong:
  assumes "options c1 = options c2" and "presetTemplates c1 = presetTemplates c2"
  shows "grouped_outputs env c1 t tc pc = grouped_outputs env c2 t tc pc"
  using assms by (simp add: grouped_outputs_def compile_preset_def)

lemma write_outputs_cong:
  assumes "options c1 = options c2" and "presetTemplates c1 = presetTemplates c2"
  shows "map_sum id outputList (write_outputs env c1 tc t pc)
       = map_sum id outputList (write_outputs env c2 tc t pc)"
proof (cases "groupStrategy_includes_file (options c2)")
  case (Inl e)
  with assms show ?thesis by (simp add: write_outputs_def)
next
  case (Inr grouped)
  show ?thesis
  proof (cases grouped)
    case True
    show ?thesis
    proof (cases "grouped_outputs env c2 t tc pc")
      case (Inl e)
      with assms Inr True grouped_outputs_cong[OF assms, of env t tc pc] show ?thesis
        by (simp add: write_outputs_def)
    next
      case g: (Inr obj)
      with assms Inr True grouped_outputs_cong[OF assms, of env t tc pc] show ?thesis
        by (cases "first_output (to_outputList 0 (obj_entries obj))")
           (simp_all add: write_outputs_def)
    qed
  next
    case False
    with assms Inr show ?thesis
      by (cases "hbs_render env t (FullArg tc (options c2))") (simp_all add: write_outputs_def)
  qed
qed

lemma updateOutput_submit:
  "updateOutput env c (Submit_file_modal t)
     = bindE (findIndex (\<lambda>item. name item = selectedOpenApiFileName c) (inputList c))
         (\<lambda>documentIndex. generate_output env c (content t))"
  by (cases "findIndex (\<lambda>item. name item = selectedOpenApiFileName c) (inputList c)")
     (simp_all add: updateOutput_def document_input_def)

section \<open>Evaluation\<close>

text \<open>The definitions that evaluate the machine on a concrete run.\<close>

lemmas eval_defs =
  sample_env_def initial_context_def initialInputList_def initial_state_def
  step_def on_playing_def on_loading_def on_remove_file_def on_select_input_tab_def
  select_and_update_def
  on_editing_options_def on_editing_monaco_settings_def on_editing_file_tab_def
  on_creating_file_tab_def submit_file_modal_def submit_actions_def to_state_def
  assignEditorRef.simps willInputAndOutputEditorBothBeReady_def
  removeFile_def removeAtIndex_def updateAtIndex_def limit_def arr_get_def
  array_of_def arr_length_def is_element_index_def find_js_def spread_def append_elem_def
  selectInputTab_def selectOutputTab_def selectPresetTemplate_def selectPresetTemplate_inputList_def
  updateInputEditorValue_def updateInput_def wasInputEmpty_def updateSelectedDocOrTemplate_def
  initFileForm_def assignFileToForm_def updateEditingFile_def createNewFile_def
  updatePreviewOptions_def resetPreviewOptions_def updateOptions_def
  updateSelectedOpenApiFileName_def updateSelectedTemplateName_def updateSelectedPrettierConfig_def
  next_selectedOpenApiFileName_def next_selectedTemplateName_def next_selectedPrettierConfig_def
  isNextTabAnotherOpenApiDoc_def isNextTabAnotherTemplate_def isNextTabAnotherPrettierConfig_def
  findIndex_def isValidDocumentName_def isValidTemplateName_def isValidPrettierConfig_def
  startsWith_def endsWith_def
  updateOutput_def document_input_def generate_output_def write_outputs_def first_output_def
  parse_document_def templateString_def groupStrategy_includes_file_def
  grouped_outputs_def compile_preset_def common_output_def groupNames_def obj_fromEntries_def obj_keys_def obj_entries_def
  obj_assign_def is_array_index_def is_digit_def digits_val_def
  sample_presets_def sample_render_def sample_catalog_def initialOuputTab_def
  tab_indices_def pointers_of_def editors_of_def tab_names_def present_tabs_def
  List.map_filter_simps

section \<open>The claims\<close>

subsection \<open>C1: a document that does not parse\<close>

text \<open>
  Claim C1 says that a regeneration on a document text that is not empty and
  does not parse returns the context unchanged and raises nothing.  That holds
  of a text that begins with a brace, which \<^verbatim>\<open>safeJSONParse\<close> turns into
  \<^verbatim>\<open>null\<close>, and of a YAML text that parses to a falsy value.  A YAML text that
  does not parse makes \<^verbatim>\<open>parse\<close> raise, and \<^verbatim>\<open>updateOutput\<close> raises with
  it: here are the three cases.
\<close>

theorem C1_unparsable_document:
  assumes "document_input ctx ev = Inr input" and "input \<noteq> []"
  shows "(startsWith input ''{'' \<and> safeJSONParse env input = None
            \<longrightarrow> updateOutput env ctx ev = Inr ctx)
       \<and> (\<not> startsWith input ''{'' \<and> yaml_parse env input = Inr None
            \<longrightarrow> updateOutput env ctx ev = Inr ctx)
       \<and> (\<not> startsWith input ''{'' \<and> yaml_parse env input = Inl e
            \<longrightarrow> updateOutput env ctx ev = Inl e)"
  using assms by (simp add: updateOutput_def generate_output_def parse_document_def)

text \<open>
  The third case from the initial context: the user types a flow sequence that
  is never closed into the document tab, and \<^verbatim>\<open>Update input\<close> raises.
\<close>

theorem C1_yaml_failure_raises:
  "step (sample_env [] None) Playing (initial_context (sample_env [] None))
     (Update_input ''paths: [unclosed'')
   = Inl YAMLParseError"
proof -
  let ?E = "sample_env [] None"
  let ?c = "updateInput (initial_context ?E) ''paths: [unclosed''"
  have d: "document_input ?c (Update_input ''paths: [unclosed'') = Inr ''paths: [unclosed''"
    by (simp add: eval_defs)
  have y: "yaml_parse ?E ''paths: [unclosed'' = Inl YAMLParseError"
    by (simp add: sample_env_def)
  have "updateOutput ?E ?c (Update_input ''paths: [unclosed'') = Inl YAMLParseError"
    using C1_unparsable_document[OF d, of ?E YAMLParseError] y
    by (simp add: startsWith_def)
  moreover have "trim ''openapi: 3.0.0'' = ''openapi: 3.0.0''"
    by (simp add: trim_def white_space_def trimStart_of_None)
  then have "wasInputEmpty (initial_context ?E) ''paths: [unclosed'' = Inr False"
    by (simp add: eval_defs)
  ultimately show ?thesis
    by (simp add: step_def on_playing_def to_state_def)
qed

subsection \<open>C2: the role pointers after a removal\<close>

text \<open>
  Claim C2, as the machine has it: when \<^verbatim>\<open>Remove file\<close> succeeds, the input
  list is the list without the removed tab, and each of the three role
  pointers names the first tab of that list, in list order, whose name
  satisfies the predicate of the role; when no tab of the list satisfies it,
  the pointer keeps the value it had (it is not cleared).
\<close>

theorem C2_remove_file_pointers:
  assumes "step env Playing ctx (Remove_file t) = Inr (st', ctx')"
  shows "inputList ctx' = removeAtIndex (inputList ctx) (index t)
     \<and> selectedOpenApiFileName ctx'
         = first_of_role isValidDocumentName (inputList ctx') (selectedOpenApiFileName ctx)
     \<and> selectedTemplateName ctx'
         = first_of_role isValidTemplateName (inputList ctx') (selectedTemplateName ctx)
     \<and> selectedPrettierConfig ctx'
         = first_of_role isValidPrettierConfig (inputList ctx') (selectedPrettierConfig ctx)"
proof -
  from assms have "to_state Playing
       (bindE (removeFile ctx t) (\<lambda>c1.
        bindE (updateSelectedOpenApiFileName c1 (Remove_file t)) (\<lambda>c2.
        bindE (updateSelectedTemplateName c2 (Remove_file t)) (\<lambda>c3.
        bindE (updateSelectedPrettierConfig c3 (Remove_file t)) (\<lambda>c4.
        updateOutput env c4 (Remove_file t)))))) = Inr (st', ctx')"
    by (simp add: step_def on_playing_def on_remove_file_def)
  then obtain c1 c2 c3 c4 where
    c1: "removeFile ctx t = Inr c1"
    and c2: "updateSelectedOpenApiFileName c1 (Remove_file t) = Inr c2"
    and c3: "updateSelectedTemplateName c2 (Remove_file t) = Inr c3"
    and c4: "updateSelectedPrettierConfig c3 (Remove_file t) = Inr c4"
    and c5: "updateOutput env c4 (Remove_file t) = Inr ctx'"
    unfolding to_state_eq_Inr by (auto elim!: bindE_InrE)
  note f1 = removeFile_Inr[OF c1]
  note e2 = updateSelectedOpenApiFileName_remove[OF c2]
  note e3 = updateSelectedTemplateName_remove[OF c3]
  note e4 = updateSelectedPrettierConfig_remove[OF c4]
  note f5 = updateOutput_frame[OF c5]
  have l: "inputList ctx' = inputList c1" "inputList c4 = inputList c1"
    "inputList c3 = inputList c1" "inputList c2 = inputList c1"
    using f5 e2 e3 e4 by simp_all
  have p: "pointers_of ctx' = pointers_of c4" using f5 by simp
  show ?thesis
    using f1 l p e2 e3 e4 by (simp add: pointers_of_def)
qed

text \<open>
  The theorem at the initial context, on the removal of the document tab: the
  template and formatter pointers name the first tab of their role, and the
  document pointer, with no document left, keeps \<^verbatim>\<open>api.doc.yaml\<close>.
\<close>

theorem C2_witness:
  "(case step (sample_env [] None) Playing (initial_context (sample_env [] None))
           (Remove_file \<lparr> name = ''api.doc.yaml'', content = ''openapi: 3.0.0'', index = 0,
                           preset = Some ''petstore.yaml'' \<rparr>) of
      Inl e \<Rightarrow> False
    | Inr s \<Rightarrow>
        tab_names (inputList (snd s)) = [''template.hbs'', ''.prettierrc.json'']
        \<and> selectedOpenApiFileName (snd s)
            = first_of_role isValidDocumentName (inputList (snd s)) ''api.doc.yaml''
        \<and> selectedTemplateName (snd s)
            = first_of_role isValidTemplateName (inputList (snd s)) ''template.hbs''
        \<and> selectedPrettierConfig (snd s)
            = first_of_role isValidPrettierConfig (inputList (snd s)) ''.prettierrc.json'')"
proof -
  let ?E = "sample_env [] None"
  let ?ev = "Remove_file \<lparr> name = ''api.doc.yaml'', content = ''openapi: 3.0.0'', index = 0,
                           preset = Some ''petstore.yaml'' \<rparr>"
  obtain s where s: "step ?E Playing (initial_context ?E) ?ev = Inr s"
    and n: "tab_names (inputList (snd s)) = [''template.hbs'', ''.prettierrc.json'']"
    by (simp add: eval_defs)
  from s have "step ?E Playing (initial_context ?E) ?ev = Inr (fst s, snd s)" by simp
  from C2_remove_file_pointers[OF this] s n show ?thesis
    by (simp add: initial_context_def)
qed

text \<open>
  Claim C2 as stated fails: after the only template tab is removed, no tab of
  the list is a template and \<open>selectedTemplateName\<close> is still
  \<^verbatim>\<open>template.hbs\<close>, not empty.
\<close>

theorem C2_pointer_not_cleared:
  "tab_names (inputList (snd (run (sample_env [] None)
      (Playing, initial_context (sample_env [] None))
      [Remove_file \<lparr> name = ''template.hbs'', content = ''{{endpoints}}'', index = 1,
                      preset = Some ''default'' \<rparr>])))
   = [''api.doc.yaml'', ''.prettierrc.json'']
   \<and> selectedTemplateName (snd (run (sample_env [] None)
      (Playing, initial_context (sample_env [] None))
      [Remove_file \<lparr> name = ''template.hbs'', content = ''{{endpoints}}'', index = 1,
                      preset = Some ''default'' \<rparr>]))
   = ''template.hbs''"
  by (simp add: eval_defs)

subsection \<open>C3: the index of a tab after a removal\<close>

text \<open>
  Claim C3 says that after any sequence of additions and removals the tab at
  position \<open>i\<close> of the input list has the index \<open>i\<close>.  \<^verbatim>\<open>removeFile\<close> takes
  the tab out and leaves the index fields of the tabs that follow as they
  were: from the three initial tabs, removing the first one leaves the tabs at
  the positions 0 and 1 with the indices 1 and 2.  \<^verbatim>\<open>removeFile\<close> reads the
  index of the tab of its event as the position to remove, so a second
  \<^verbatim>\<open>Remove file\<close>, of the formatter tab (now at position 1, with index 2),
  removes nothing.
\<close>

theorem C3_removeFile_leaves_indices_stale:
  "tab_indices (inputList (snd (run (sample_env [] None)
      (Playing, initial_context (sample_env [] None))
      [Remove_file \<lparr> name = ''api.doc.yaml'', content = ''openapi: 3.0.0'', index = 0,
                      preset = Some ''petstore.yaml'' \<rparr>])))
   = [Some 1, Some 2]
   \<and> tab_names (inputList (snd (run (sample_env [] None)
      (Playing, initial_context (sample_env [] None))
      [Remove_file \<lparr> name = ''api.doc.yaml'', content = ''openapi: 3.0.0'', index = 0,
                      preset = Some ''petstore.yaml'' \<rparr>,
       Remove_file \<lparr> name = ''.prettierrc.json'', content = ''{}'', index = 2,
                      preset = Some ''prettier'' \<rparr>])))
   = [''template.hbs'', ''.prettierrc.json'']"
  by (simp add: eval_defs)

subsection \<open>C4: the order of the grouped output\<close>

text \<open>
  Claim C4, as the machine has it.  Let a regeneration be performed (the
  document text is not empty and parses to the document \<open>doc\<close>, the template
  context \<open>tc\<close> is built, the template text is not empty, nothing raises)
  under a strategy that groups by file, and let every group name be plain:
  none of \<^verbatim>\<open>index\<close>, \<^verbatim>\<open>common\<close>, \<^verbatim>\<open>__proto__\<close>, and no array index (the
  groups are the properties of an object: each name occurs once).  Then
  the names of the output list are \<^verbatim>\<open>index.ts\<close>, then \<^verbatim>\<open>common.ts\<close> exactly
  when there are common schema names, then one name per group in the order
  of insertion; the indices count from 0; the active output index is 0 and
  the active output tab is \<^verbatim>\<open>index.ts\<close>.
\<close>

theorem C4_grouped_output_order:
  assumes "document_input ctx ev = Inr input" and "input \<noteq> []"
    and "parse_document env input = Inr (Some doc)"
    and "getZodClientTemplateContext env doc (options ctx) = Inr tc"
    and "find_js (\<lambda>item. name item = selectedTemplateName ctx) (inputList ctx) = Inr templateTab"
    and "templateString env ctx templateTab \<noteq> []"
    and "groupStrategy_includes_file (options ctx) = Inr True"
    and "updateOutput env ctx ev = Inr ctx'"
    and "distinct (map fst (endpointsGroups tc))"
    and "list_all plain_group_name (map fst (endpointsGroups tc))"
  shows "map name (outputList ctx') = grouped_names tc
     \<and> map index (outputList ctx') = map int [0..<length (outputList ctx')]
     \<and> activeOutputIndex ctx' = 0
     \<and> activeOutputTab ctx' = ''index.ts''"
proof -
  from assms(1,8) have go: "generate_output env ctx input = Inr ctx'"
    by (simp add: updateOutput_def)
  obtain prettierTab where
    pt: "find_js (\<lambda>tab. name tab = selectedPrettierConfig ctx) (inputList ctx) = Inr prettierTab"
    using go assms(2-6)
    by (cases "find_js (\<lambda>tab. name tab = selectedPrettierConfig ctx) (inputList ctx)")
       (simp_all add: generate_output_def)
  let ?pc = "safeJSONParse env (case prettierTab of Some tab \<Rightarrow> content tab | None \<Rightarrow> ''{}'')"
  let ?t = "templateString env ctx templateTab"
  from go generate_output_written[OF assms(2-6) pt]
  have "write_outputs env ctx tc ?t ?pc = Inr ctx'" by simp
  with assms(7) obtain obj first where
    g: "grouped_outputs env ctx ?t tc ?pc = Inr obj"
    and f: "first_output (to_outputList 0 (obj_entries obj)) = Inr first"
    and c: "ctx' = ctx\<lparr> outputList := to_outputList 0 (obj_entries obj),
                       activeOutputIndex := 0, activeOutputTab := name first \<rparr>"
    by (auto simp: write_outputs_def bindE_eq_Inr)
  from grouped_outputs_keys[OF g assms(9,10)]
  have n: "map (\<lambda>kv. fst kv @ ''.ts'') obj = grouped_names tc"
    and e: "obj_entries obj = obj"
    by (simp_all add: obj_entries_plain)
  have names: "map name (outputList ctx') = grouped_names tc"
    using c e n by (simp add: to_outputList_names)
  have idx: "map index (outputList ctx') = map int [0..<length (outputList ctx')]"
    using c by (simp add: to_outputList_indices to_outputList_length)
  from f have "name first = hd (map name (to_outputList 0 (obj_entries obj)))"
    by (auto simp: first_output_def split: list.split_asm)
  also have "\<dots> = ''index.ts''"
    using names c by (simp add: grouped_names_def)
  finally have "activeOutputTab ctx' = ''index.ts''" using c by simp
  with names idx c show ?thesis by simp
qed


text \<open>
  The theorem on two groups and one common schema name, with the catalog
  loaded and the strategy \<^verbatim>\<open>tag-file\<close>.
\<close>

theorem C4_witness:
  "(case updateOutput (sample_env [(''pet'', ''p''), (''store'', ''s'')] (Some [''Pet'']))
           ((initial_context (sample_env [(''pet'', ''p''), (''store'', ''s'')] (Some [''Pet''])))
              \<lparr> options := [''groupStrategy'' \<mapsto> OStr ''tag-file''],
                presetTemplates := sample_catalog \<rparr>)
           (Save_options [''groupStrategy'' \<mapsto> OStr ''tag-file'']) of
      Inl e \<Rightarrow> False
    | Inr c \<Rightarrow>
        map name (outputList c) = [''index.ts'', ''common.ts'', ''pet.ts'', ''store.ts'']
        \<and> map index (outputList c) = [0, 1, 2, 3]
        \<and> activeOutputIndex c = 0
        \<and> activeOutputTab c = ''index.ts'')"
proof -
  let ?E = "sample_env [(''pet'', ''p''), (''store'', ''s'')] (Some [''Pet''])"
  let ?ctx = "(initial_context ?E)
              \<lparr> options := [''groupStrategy'' \<mapsto> OStr ''tag-file''],
                presetTemplates := sample_catalog \<rparr>"
  let ?ev = "Save_options [''groupStrategy'' \<mapsto> OStr ''tag-file'']"
  let ?tc = "\<lparr> endpointsGroups = [(''pet'', ''p''), (''store'', ''s'')],
               commonSchemaNames = Some [''Pet''], otherFields = ''openapi: 3.0.0'' \<rparr>"
  let ?tab = "\<lparr> name = ''template.hbs'', content = ''{{endpoints}}'', index = 1,
                preset = Some ''default'' \<rparr>"
  obtain c where c: "updateOutput ?E ?ctx ?ev = Inr c"
    by (simp add: eval_defs)
  have h1: "document_input ?ctx ?ev = Inr ''openapi: 3.0.0''" by (simp add: eval_defs)
  have h2: "''openapi: 3.0.0'' \<noteq> []" by simp
  have h3: "parse_document ?E ''openapi: 3.0.0'' = Inr (Some ''openapi: 3.0.0'')"
    by (simp add: eval_defs)
  have h4: "getZodClientTemplateContext ?E ''openapi: 3.0.0'' (options ?ctx) = Inr ?tc"
    by (simp add: eval_defs)
  have h5: "find_js (\<lambda>item. name item = selectedTemplateName ?ctx) (inputList ?ctx) = Inr (Some ?tab)"
    by (simp add: eval_defs)
  have h6: "templateString ?E ?ctx (Some ?tab) \<noteq> []" by (simp add: eval_defs)
  have h7: "groupStrategy_includes_file (options ?ctx) = Inr True" by (simp add: eval_defs)
  have h9: "distinct (map fst (endpointsGroups ?tc))" by simp
  have h10: "list_all plain_group_name (map fst (endpointsGroups ?tc))"
    by (simp add: plain_group_name_def is_array_index_def is_digit_def)
  note r = C4_grouped_output_order[OF h1 h2 h3 h4 h5 h6 h7 c h9 h10]
  have g: "grouped_names ?tc = [''index.ts'', ''common.ts'', ''pet.ts'', ''store.ts'']"
    by (simp add: grouped_names_def)
  from r g have n: "map name (outputList c) = [''index.ts'', ''common.ts'', ''pet.ts'', ''store.ts'']"
    by simp
  have "length (outputList c) = length (map name (outputList c))" by simp
  also have "\<dots> = 4" unfolding n by simp
  finally have "length (outputList c) = 4" .
  then have "map int [0..<length (outputList c)] = [0, 1, 2, 3]"
    by (simp add: upt_rec)
  with r n c show ?thesis by simp
qed

text \<open>
  Claim C4 as stated fails on a group named \<^verbatim>\<open>index\<close>: the outputs are
  keyed by name in one object, the rendering of the group overwrites the
  index artifact, and the output list has one artifact where the claim has
  two.
\<close>

theorem C4_group_named_index:
  "map name (outputList (snd (run (sample_env [(''index'', ''g'')] None)
      (Playing, initial_context (sample_env [(''index'', ''g'')] None))
      [Done_getPresetTemplates sample_catalog, Open_options,
       Save_options [''groupStrategy'' \<mapsto> OStr ''tag-file'']])))
   = [''index.ts'']
   \<and> map content (outputList (snd (run (sample_env [(''index'', ''g'')] None)
      (Playing, initial_context (sample_env [(''index'', ''g'')] None))
      [Done_getPresetTemplates sample_catalog, Open_options,
       Save_options [''groupStrategy'' \<mapsto> OStr ''tag-file'']])))
   = [''{{endpoints}}|index'']
   \<and> grouped_names \<lparr> endpointsGroups = [(''index'', ''g'')], commonSchemaNames = None,
                      otherFields = ''openapi: 3.0.0'' \<rparr>
   = [''index.ts'', ''index.ts'']"
  by (simp add: eval_defs grouped_names_def)

subsection \<open>C5: leaving the loading state\<close>

text \<open>
  Claim C5 says that the machine leaves \<^verbatim>\<open>loading\<close> exactly when both editor
  references are set once the event's editor is recorded, so that both are set
  in every ready state.  The guard \<^verbatim>\<open>willInputAndOutputEditorBothBeReady\<close>
  reads the context before the event and holds when one of the two
  references is set, whichever editor the event brings: when the input
  editor loads twice, the machine is ready with no output editor.
\<close>

theorem C5_ready_without_output_editor:
  "editors_of (run (sample_env [] None) (initial_state (sample_env [] None))
      [Editor_Loaded 1 InputEditor None, Editor_Loaded 2 InputEditor None])
   = (Playing, Some 2, None)"
  by (simp add: eval_defs)

subsection \<open>C6: closing the options\<close>

text \<open>
  Claim C6, as the machine has it: \<^verbatim>\<open>Close options\<close> in the state
  \<^verbatim>\<open>Editing options\<close> returns to \<^verbatim>\<open>Playing\<close> and changes nothing of the
  context.  No regeneration runs and the committed options stay; the preview
  options stay as well, with the edits made in \<^verbatim>\<open>Editing options\<close>.
\<close>

theorem C6_close_options_keeps_context:
  "step env Editing_options ctx Close_options = Inr (Playing, ctx)"
  by (simp add: step_def on_editing_options_def)

text \<open>
  Claim C6 as stated fails: after \<^verbatim>\<open>Open options\<close>, an update of the preview
  options and \<^verbatim>\<open>Close options\<close>, the machine is in \<^verbatim>\<open>Playing\<close> and the preview
  options differ from the committed ones.
\<close>

theorem C6_preview_options_not_discarded:
  "fst (run (sample_env [] None) (Playing, initial_context (sample_env [] None))
         [Open_options, Update_preview_options [''groupStrategy'' \<mapsto> OStr ''tag-file''],
          Close_options])
     = Playing
   \<and> previewOptions (snd (run (sample_env [] None) (Playing, initial_context (sample_env [] None))
         [Open_options, Update_preview_options [''groupStrategy'' \<mapsto> OStr ''tag-file''],
          Close_options]))
     \<noteq> options (snd (run (sample_env [] None) (Playing, initial_context (sample_env [] None))
         [Open_options, Update_preview_options [''groupStrategy'' \<mapsto> OStr ''tag-file''],
          Close_options]))"
  by (simp add: eval_defs fun_eq_iff)

subsection \<open>C7: what the role pointers name\<close>

text \<open>
  Claim C7, as the machine has it.  After every run of events from the
  initial state, the document pointer is empty or a document name, the
  formatter pointer is a formatter-configuration name, and the template
  pointer is a template name or the value of a preset that a
  \<^verbatim>\<open>Select preset template\<close> event of the run has selected.  Nothing says that
  a pointer names a tab of the input list: \<^verbatim>\<open>Select preset template\<close> stores
  the value of the preset, which \<^verbatim>\<open>updateOutput\<close> looks up in the preset list,
  and \<^verbatim>\<open>Remove file\<close> keeps the pointer of a role that no tab is left for.
\<close>

theorem C7_role_pointers_classified:
  "role_pointers_classified (selected_presets evs) (snd (run env (initial_state env) evs))"
  using run_classified[of "[]" "initial_state env" evs env] initial_classified[of env]
  by (simp add: initial_state_def)

text \<open>The theorem on a run that loads both editors and selects a preset.\<close>

theorem C7_witness:
  "role_pointers_classified [''default'']
     (snd (run (sample_env [] None) (initial_state (sample_env [] None))
        [Editor_Loaded 1 InputEditor None, Editor_Loaded 2 OutputEditor (Some 0),
         Select_preset_template \<lparr> pt_value = ''default'', pt_template = ''template-default'',
                                   pt_options = None \<rparr>]))
   \<and> pointers_of (snd (run (sample_env [] None) (initial_state (sample_env [] None))
        [Editor_Loaded 1 InputEditor None, Editor_Loaded 2 OutputEditor (Some 0),
         Select_preset_template \<lparr> pt_value = ''default'', pt_template = ''template-default'',
                                   pt_options = None \<rparr>]))
     = (''api.doc.yaml'', ''default'', ''.prettierrc.json'')"
  using C7_role_pointers_classified[of
        "[Editor_Loaded 1 InputEditor None, Editor_Loaded 2 OutputEditor (Some 0),
         Select_preset_template \<lparr> pt_value = ''default'', pt_template = ''template-default'',
                                   pt_options = None \<rparr>]" "sample_env [] None"]
  by (simp add: eval_defs)

text \<open>
  Claim C7 as stated fails in a reachable state: after the same run the
  template pointer is \<^verbatim>\<open>default\<close>, which is not empty and names no tab of the
  input list.
\<close>

theorem C7_preset_pointer_names_no_tab:
  "\<not> role_pointers_resolve
     (snd (run (sample_env [] None) (initial_state (sample_env [] None))
        [Editor_Loaded 1 InputEditor None, Editor_Loaded 2 OutputEditor (Some 0),
         Select_preset_template \<lparr> pt_value = ''default'', pt_template = ''template-default'',
                                   pt_options = None \<rparr>]))"
  by (simp add: eval_defs role_pointers_resolve_def pointer_resolves_def)

subsection \<open>C8: selecting a tab that is not in the list\<close>

text \<open>
  Claim C8 says that \<^verbatim>\<open>Select input tab\<close> with a name that no input tab has
  is a silent no-op.  The guard \<^verbatim>\<open>isNextTabAnotherOpenApiDoc\<close> finds the index
  \<open>-1\<close> and reads \<^verbatim>\<open>ctx.inputList[-1].name\<close>: from the initial context the
  event raises a TypeError, whatever the collaborators.
\<close>

theorem C8_select_absent_tab_raises:
  "step env Playing (initial_context env)
     (Select_input_tab \<lparr> name = ''ghost.txt'', content = ''x'', index = 3, preset = None \<rparr>)
   = Inl TypeError"
  by (simp add: eval_defs)

subsection \<open>C9: the output is a function of the inputs of the pipeline\<close>

text \<open>
  Claim C9: the regeneration is deterministic.  The collaborators are
  functions here, so two invocations on one context agree; what is proved is
  more: the output list depends on nothing of the context but the inputs
  that the claim names.  Let two contexts have the same document text, the
  same resolved template text, the same formatter configuration text, the
  same committed options and the same preset catalog.  Then \<^verbatim>\<open>updateOutput\<close>
  either returns each context as it is (no regeneration), or raises the same
  exception on both, or produces the same output list on both.
\<close>

theorem C9_output_determined_by_inputs:
  assumes d: "document_input ctx1 ev = document_input ctx2 ev"
    and o: "options ctx1 = options ctx2"
    and p: "presetTemplates ctx1 = presetTemplates ctx2"
    and t1: "find_js (\<lambda>item. name item = selectedTemplateName ctx1) (inputList ctx1) = Inr tt1"
    and t2: "find_js (\<lambda>item. name item = selectedTemplateName ctx2) (inputList ctx2) = Inr tt2"
    and ts: "templateString env ctx1 tt1 = templateString env ctx2 tt2"
    and p1: "find_js (\<lambda>tab. name tab = selectedPrettierConfig ctx1) (inputList ctx1) = Inr pt1"
    and p2: "find_js (\<lambda>tab. name tab = selectedPrettierConfig ctx2) (inputList ctx2) = Inr pt2"
    and ps: "map_option content pt1 = map_option content pt2"
  shows "(updateOutput env ctx1 ev = Inr ctx1 \<and> updateOutput env ctx2 ev = Inr ctx2)
       \<or> map_sum id outputList (updateOutput env ctx1 ev)
           = map_sum id outputList (updateOutput env ctx2 ev)"
proof (cases "document_input ctx2 ev")
  case (Inl e)
  with d show ?thesis by (simp add: updateOutput_def)
next
  case (Inr input)
  with d have u: "updateOutput env ctx1 ev = generate_output env ctx1 input"
    "updateOutput env ctx2 ev = generate_output env ctx2 input"
    by (simp_all add: updateOutput_def)
  show ?thesis
  proof (cases "input = []")
    case True
    with u show ?thesis by (simp add: generate_output_def)
  next
    case ne: False
    show ?thesis
    proof (cases "parse_document env input")
      case (Inl e)
      with u ne show ?thesis by (simp add: generate_output_def)
    next
      case pr: (Inr parsed)
      show ?thesis
      proof (cases parsed)
        case None
        with u ne pr show ?thesis by (simp add: generate_output_def)
      next
        case (Some doc)
        show ?thesis
        proof (cases "getZodClientTemplateContext env doc (options ctx2)")
          case (Inl e)
          with u ne pr Some o show ?thesis by (simp add: generate_output_def)
        next
          case tc: (Inr tc)
          show ?thesis
          proof (cases "templateString env ctx2 tt2 = []")
            case True
            with u ne pr Some o tc t1 t2 ts show ?thesis by (simp add: generate_output_def)
          next
            case False
            have pc: "(case pt1 of Some tab \<Rightarrow> content tab | None \<Rightarrow> ''{}'')
                    = (case pt2 of Some tab \<Rightarrow> content tab | None \<Rightarrow> ''{}'')"
              using ps by (cases pt1; cases pt2) simp_all
            let ?pc = "safeJSONParse env (case pt2 of Some tab \<Rightarrow> content tab | None \<Rightarrow> ''{}'')"
            let ?t = "templateString env ctx2 tt2"
            have g1: "generate_output env ctx1 input = write_outputs env ctx1 tc ?t ?pc"
              using generate_output_written[of input env doc ctx1 tc tt1 pt1]
                ne pr Some o tc t1 ts False p1 pc by simp
            have g2: "generate_output env ctx2 input = write_outputs env ctx2 tc ?t ?pc"
              using generate_output_written[of input env doc ctx2 tc tt2 pt2]
                ne pr Some tc t2 False p2 by simp
            from write_outputs_cong[OF o p, of env tc ?t ?pc] u g1 g2
            show ?thesis by simp
          qed
        qed
      qed
    qed
  qed
qed

text \<open>
  The theorem on two contexts that differ in the active tab, in a tab with no
  role, in the preview options and in the previous output list.
\<close>

theorem C9_witness:
  "map_sum id outputList
     (updateOutput (sample_env [] None) (initial_context (sample_env [] None)) (Update_input ''x''))
   = map_sum id outputList
     (updateOutput (sample_env [] None)
        ((initial_context (sample_env [] None))
           \<lparr> activeInputTab := ''notes.txt'', activeInputIndex := 3,
             inputList := append_elem (inputList (initial_context (sample_env [] None)))
               \<lparr> name = ''notes.txt'', content = ''hello'', index = 3, preset = None \<rparr>,
             outputList := [], previewOptions := Map.empty \<rparr>)
        (Update_input ''x''))
   \<and> map_sum id outputList
     (updateOutput (sample_env [] None) (initial_context (sample_env [] None)) (Update_input ''x''))
   = Inr [\<lparr> name = ''api.client.ts'', content = ''{{endpoints}}|openapi: 3.0.0'', index = 0,
            preset = None \<rparr>]"
proof -
  let ?E = "sample_env [] None"
  let ?c1 = "initial_context ?E"
  let ?c2 = "?c1\<lparr> activeInputTab := ''notes.txt'', activeInputIndex := 3,
             inputList := append_elem (inputList ?c1)
               \<lparr> name = ''notes.txt'', content = ''hello'', index = 3, preset = None \<rparr>,
             outputList := [], previewOptions := Map.empty \<rparr>"
  let ?ev = "Update_input ''x''"
  let ?tt = "Some \<lparr> name = ''template.hbs'', content = ''{{endpoints}}'', index = 1,
                 preset = Some ''default'' \<rparr>"
  let ?pt = "Some \<lparr> name = ''.prettierrc.json'', content = ''{}'', index = 2,
                 preset = Some ''prettier'' \<rparr>"
  have d: "document_input ?c1 ?ev = document_input ?c2 ?ev" by (simp add: eval_defs)
  have o: "options ?c1 = options ?c2" by simp
  have p: "presetTemplates ?c1 = presetTemplates ?c2" by simp
  have t1: "find_js (\<lambda>item. name item = selectedTemplateName ?c1) (inputList ?c1) = Inr ?tt"
    by (simp add: eval_defs)
  have t2: "find_js (\<lambda>item. name item = selectedTemplateName ?c2) (inputList ?c2) = Inr ?tt"
    by (simp add: eval_defs)
  have ts: "templateString ?E ?c1 ?tt = templateString ?E ?c2 ?tt" by (simp add: eval_defs)
  have p1: "find_js (\<lambda>tab. name tab = selectedPrettierConfig ?c1) (inputList ?c1) = Inr ?pt"
    by (simp add: eval_defs)
  have p2: "find_js (\<lambda>tab. name tab = selectedPrettierConfig ?c2) (inputList ?c2) = Inr ?pt"
    by (simp add: eval_defs)
  have v: "map_sum id outputList (updateOutput ?E ?c1 ?ev)
     = Inr [\<lparr> name = ''api.client.ts'', content = ''{{endpoints}}|openapi: 3.0.0'', index = 0,
              preset = None \<rparr>]"
    by (simp add: eval_defs)
  then have n: "updateOutput ?E ?c1 ?ev \<noteq> Inr ?c1"
    by (auto simp: initial_context_def)
  from C9_output_determined_by_inputs[OF d o p t1 t2 ts p1 p2] n v show ?thesis
    by blast
qed

subsection \<open>C10: the document text after a submitted file\<close>

text \<open>
  Claim C10: on \<^verbatim>\<open>Submit file modal\<close>, in the state of an edited and in
  the state of a created file, the regeneration that ends the transition runs
  on the content of the submitted tab as the document text, whatever tab the
  document pointer names.  The event is: the file is written into the list
  (replaced at the index of the form, or appended), the five actions before
  \<^verbatim>\<open>updateOutput\<close> run, the document tab is looked up, and the pipeline is
  run on the content of the submitted tab; the index that the lookup returns
  is not used.  The machine is then in \<^verbatim>\<open>Playing\<close>.
\<close>

theorem C10_submit_uses_submitted_content:
  "step env Editing_file_tab ctx (Submit_file_modal t)
     = to_state Playing
         (bindE (submit_actions (updateEditingFile ctx t) t) (\<lambda>c.
          bindE (findIndex (\<lambda>item. name item = selectedOpenApiFileName c) (inputList c))
            (\<lambda>documentIndex. generate_output env c (content t))))
   \<and> step env Creating_file_tab ctx (Submit_file_modal t)
     = to_state Playing
         (bindE (submit_actions (createNewFile ctx t) t) (\<lambda>c.
          bindE (findIndex (\<lambda>item. name item = selectedOpenApiFileName c) (inputList c))
            (\<lambda>documentIndex. generate_output env c (content t))))"
  by (simp add: step_def on_editing_file_tab_def on_creating_file_tab_def submit_file_modal_def
      updateOutput_submit)

text \<open>
  The theorem in both states, on a formatter configuration: edited in place
  (the form holds the tab at index 2) and submitted as a new file.  Each
  event succeeds, the document pointer still names \<^verbatim>\<open>api.doc.yaml\<close>, and the
  output is rendered from the submitted text.
\<close>

theorem C10_witness:
  "(case step (sample_env [] None) Editing_file_tab
           (assignFileToForm (initial_context (sample_env [] None))
              \<lparr> name = ''.prettierrc.json'', content = ''{}'', index = 2,
                preset = Some ''prettier'' \<rparr>)
           (Submit_file_modal \<lparr> name = ''.prettierrc.json'', content = ''{ }'', index = 2,
                                 preset = Some ''prettier'' \<rparr>) of
      Inl e \<Rightarrow> False
    | Inr s \<Rightarrow>
        fst s = Playing
        \<and> selectedOpenApiFileName (snd s) = ''api.doc.yaml''
        \<and> map content (outputList (snd s)) = [''{{endpoints}}|{ }''])
   \<and> (case step (sample_env [] None) Creating_file_tab
           (initFileForm (initial_context (sample_env [] None)))
           (Submit_file_modal \<lparr> name = ''.prettierrc.alt.json'', content = ''{}'', index = 3,
                                 preset = None \<rparr>) of
      Inl e \<Rightarrow> False
    | Inr s \<Rightarrow>
        fst s = Playing
        \<and> selectedOpenApiFileName (snd s) = ''api.doc.yaml''
        \<and> map content (outputList (snd s)) = [''{{endpoints}}|{}''])"
proof -
  let ?E = "sample_env [] None"
  let ?c1 = "assignFileToForm (initial_context ?E)
              \<lparr> name = ''.prettierrc.json'', content = ''{}'', index = 2,
                preset = Some ''prettier'' \<rparr>"
  let ?t1 = "\<lparr> name = ''.prettierrc.json'', content = ''{ }'', index = 2,
                preset = Some ''prettier'' \<rparr>"
  let ?c2 = "initFileForm (initial_context ?E)"
  let ?t2 = "\<lparr> name = ''.prettierrc.alt.json'', content = ''{}'', index = 3, preset = None \<rparr>"
  let ?run = "\<lambda>c0 t. to_state Playing
         (bindE (submit_actions c0 t) (\<lambda>c.
          bindE (findIndex (\<lambda>item. name item = selectedOpenApiFileName c) (inputList c))
            (\<lambda>documentIndex. generate_output ?E c (content t))))"
  obtain s1 where s1: "?run (updateEditingFile ?c1 ?t1) ?t1 = Inr s1"
    and v1: "fst s1 = Playing" "selectedOpenApiFileName (snd s1) = ''api.doc.yaml''"
      "map content (outputList (snd s1)) = [''{{endpoints}}|{ }'']"
    by (simp add: eval_defs)
  obtain s2 where s2: "?run (createNewFile ?c2 ?t2) ?t2 = Inr s2"
    and v2: "fst s2 = Playing" "selectedOpenApiFileName (snd s2) = ''api.doc.yaml''"
      "map content (outputList (snd s2)) = [''{{endpoints}}|{}'']"
    by (simp add: eval_defs)
  from C10_submit_uses_submitted_content[of ?E ?c1 ?t1] s1
  have e1: "step ?E Editing_file_tab ?c1 (Submit_file_modal ?t1) = Inr s1" by simp
  from C10_submit_uses_submitted_content[of ?E ?c2 ?t2] s2
  have e2: "step ?E Creating_file_tab ?c2 (Submit_file_modal ?t2) = Inr s2" by simp
  show ?thesis unfolding e1 e2 using v1 v2 by simp
qed

end
